theory Spec2Isabelle
  imports Complex_Main "HOL-Library.Sublist" "HOL-Library.Product_Lexorder" "HOL-Library.Log_Nat"
begin

section \<open>Strings and the Python builtins used by the views\<close>

text \<open>
  Query-string values are Python \<open>str\<close>. They are modelled as \<^typ>\<open>string\<close>, one
  \<^typ>\<open>char\<close> per code point, which covers the code points below 256. Within that
  range the whitespace that \<open>str.strip\<close> removes is TAB, LF, VT, FF, CR, FS, GS, RS,
  US, SPACE, NEL and NBSP, and the only decimal digits are \<open>0\<close> to \<open>9\<close>.
\<close>

definition py_isspace :: "char \<Rightarrow> bool" where
  "py_isspace c \<longleftrightarrow> (of_char c :: nat) \<in> {9, 10, 11, 12, 13, 28, 29, 30, 31, 32, 133, 160}"

definition py_strip :: "string \<Rightarrow> string" where
  "py_strip s = rev (dropWhile py_isspace (rev (dropWhile py_isspace s)))"

text \<open>
  \<open>int\<close> and \<open>float\<close> accept less whitespace around a number than \<open>str.strip\<close>
  removes: the ASCII whitespace TAB, LF, VT, FF, CR and SPACE, and the non-ASCII spaces
  NEL and NBSP. FS, GS, RS and US (code points 28 to 31) are not skipped there, so a
  string that has one of them raises \<open>ValueError\<close>.
\<close>

definition num_isspace :: "char \<Rightarrow> bool" where
  "num_isspace c \<longleftrightarrow> (of_char c :: nat) \<in> {9, 10, 11, 12, 13, 32, 133, 160}"

definition num_strip :: "string \<Rightarrow> string" where
  "num_strip s = rev (dropWhile num_isspace (rev (dropWhile num_isspace s)))"

definition is_digit :: "char \<Rightarrow> bool" where
  "is_digit c \<longleftrightarrow> 48 \<le> (of_char c :: nat) \<and> (of_char c :: nat) \<le> 57"

definition digit_val :: "char \<Rightarrow> int" where
  "digit_val c = (of_char c :: int) - 48"

text \<open>
  \<open>digitpart ::= digit (["_"] digit)*\<close> of the Python grammar for numeric strings:
  \<open>digitos\<close> recognises the whole string and returns its digits without the underscores.
\<close>

fun digitos :: "string \<Rightarrow> string option" where
  "digitos [] = Some []"
| "digitos [c] = (if is_digit c then Some [c] else None)"
| "digitos (c # d # ds) =
     (if is_digit c then map_option ((#) c) (digitos (d # ds))
      else if c = CHR ''_'' \<and> is_digit d then digitos (d # ds)
      else None)"

definition digitpart :: "string \<Rightarrow> string option" where
  "digitpart s = (case s of [] \<Rightarrow> None | c # _ \<Rightarrow> if is_digit c then digitos s else None)"

definition int_of_digits :: "string \<Rightarrow> int" where
  "int_of_digits ds = foldl (\<lambda>a c. 10 * a + digit_val c) 0 ds"

text \<open>\<open>[sign] digitpart\<close>: whether the sign is \<open>-\<close>, and the digits.\<close>

definition signed_digits :: "string \<Rightarrow> (bool \<times> string) option" where
  "signed_digits t =
     (case t of
        [] \<Rightarrow> None
      | c # cs \<Rightarrow>
          if c = CHR ''-'' then map_option (\<lambda>ds. (True, ds)) (digitpart cs)
          else if c = CHR ''+'' then map_option (\<lambda>ds. (False, ds)) (digitpart cs)
          else map_option (\<lambda>ds. (False, ds)) (digitpart t))"

definition signed_value :: "bool \<times> string \<Rightarrow> int" where
  "signed_value sd = (if fst sd then - int_of_digits (snd sd) else int_of_digits (snd sd))"

text \<open>
  \<open>int(s)\<close> for a string \<open>s\<close>, base 10: \<open>None\<close> is the \<open>ValueError\<close>. Python's integers
  are unbounded, but \<open>int\<close> refuses a string with more than 4300 digits (the default of
  \<open>sys.set_int_max_str_digits\<close>; leading zeros count, underscores do not).
\<close>

definition py_int :: "string \<Rightarrow> int option" where
  "py_int s =
     (case signed_digits (num_strip s) of
        None \<Rightarrow> None
      | Some sd \<Rightarrow> if 4300 < int (length (snd sd)) then None else Some (signed_value sd))"

text \<open>
  A Python \<open>float\<close> is an IEEE 754 double: a finite one is the rational it denotes.
  \<open>round_double\<close> rounds a rational to the nearest double, ties to the even
  significand, as the correctly rounded conversion of \<open>float(s)\<close> does: 53 bits of
  significand for a normal number, multiples of \<open>2^-1074\<close> below \<open>2^-1022\<close>, and an
  infinity when the rounded magnitude reaches \<open>2^1024\<close>.
\<close>

datatype pyfloat = Finite rat | PosInf | NegInf | NaN

definition pow2 :: "int \<Rightarrow> rat" where
  "pow2 e = (if 0 \<le> e then of_int (2 ^ nat e) else 1 / of_int (2 ^ nat (- e)))"

definition round_half_even :: "rat \<Rightarrow> int" where
  "round_half_even x =
     (let f = \<lfloor>x\<rfloor>; d = x - of_int f
      in if d < 1 / 2 then f else if 1 / 2 < d then f + 1 else if even f then f else f + 1)"

text \<open>For \<open>a > 0\<close>, the \<open>e\<close> with \<open>2^e \<le> a < 2^(e+1)\<close>, from the bit lengths of \<open>a\<close>'s fraction.\<close>

definition floor_log2 :: "rat \<Rightarrow> int" where
  "floor_log2 a =
     (let c = bitlen (fst (quotient_of a)) - bitlen (snd (quotient_of a))
      in if pow2 c \<le> a then c else c - 1)"

definition round_double :: "rat \<Rightarrow> pyfloat" where
  "round_double x =
     (if x = 0 then Finite 0
      else let a = \<bar>x\<bar>;
               e = max (floor_log2 a) (- 1022);
               q = pow2 (e - 52);
               r = of_int (round_half_even (a / q)) * q
           in if pow2 1024 \<le> r then (if x < 0 then NegInf else PosInf)
              else Finite (if x < 0 then - r else r))"

text \<open>
  \<open>float(s)\<close> for a string \<open>s\<close>: \<open>None\<close> is the \<open>ValueError\<close>. A decimal literal is
  rounded to the nearest double; \<open>inf\<close>, \<open>infinity\<close> and \<open>nan\<close> are accepted in any
  case, with an optional sign, as Python does.
\<close>

definition ascii_lower :: "char \<Rightarrow> char" where
  "ascii_lower c =
     (if 65 \<le> (of_char c :: nat) \<and> (of_char c :: nat) \<le> 90
      then char_of ((of_char c :: nat) + 32) else c)"

definition lower :: "string \<Rightarrow> string" where
  "lower s = map ascii_lower s"

definition pow10 :: "int \<Rightarrow> rat" where
  "pow10 e = (if 0 \<le> e then of_int (10 ^ nat e) else 1 / of_int (10 ^ nat (- e)))"

definition opt_digitpart :: "string \<Rightarrow> string option" where
  "opt_digitpart s = (if s = [] then Some [] else digitpart s)"

text \<open>\<open>number ::= [digitpart] "." digitpart | digitpart ["."]\<close>\<close>

definition float_number :: "string \<Rightarrow> rat option" where
  "float_number m =
     (let ip = takeWhile (\<lambda>c. c \<noteq> CHR ''.'') m;
          rest = dropWhile (\<lambda>c. c \<noteq> CHR ''.'') m
      in if rest = [] then map_option (\<lambda>ds. of_int (int_of_digits ds)) (digitpart ip)
         else if ip = [] \<and> tl rest = [] then None
         else (case (opt_digitpart ip, opt_digitpart (tl rest)) of
                 (Some ids, Some fds) \<Rightarrow>
                   Some (of_int (int_of_digits ids)
                         + of_int (int_of_digits fds) / of_int (10 ^ length fds))
               | _ \<Rightarrow> None))"

text \<open>
  \<open>floatnumber ::= number [exponent]\<close>, \<open>exponent ::= ("e" | "E") [sign] digitpart\<close>:
  the exact value of the literal.
\<close>

definition float_literal :: "string \<Rightarrow> rat option" where
  "float_literal t =
     (let m = takeWhile (\<lambda>c. c \<noteq> CHR ''e'' \<and> c \<noteq> CHR ''E'') t;
          rest = dropWhile (\<lambda>c. c \<noteq> CHR ''e'' \<and> c \<noteq> CHR ''E'') t
      in if rest = [] then float_number m
         else (case (float_number m, signed_digits (tl rest)) of
                 (Some v, Some sd) \<Rightarrow> Some (v * pow10 (signed_value sd))
               | _ \<Rightarrow> None))"

definition abs_float_value :: "bool \<Rightarrow> string \<Rightarrow> pyfloat option" where
  "abs_float_value neg t =
     (if lower t = ''inf'' \<or> lower t = ''infinity'' then Some (if neg then NegInf else PosInf)
      else if lower t = ''nan'' then Some NaN
      else map_option (\<lambda>v. round_double (if neg then - v else v)) (float_literal t))"

definition py_float :: "string \<Rightarrow> pyfloat option" where
  "py_float s =
     (case num_strip s of
        [] \<Rightarrow> None
      | c # cs \<Rightarrow>
          if c = CHR ''-'' then abs_float_value True cs
          else if c = CHR ''+'' then abs_float_value False cs
          else abs_float_value False (c # cs))"

text \<open>
  Truthiness of an optional string (\<open>if v:\<close>): \<open>None\<close> and the empty string are false.
  \<open>if_truthy v f x\<close> is \<open>if v: x = f(v, x)\<close>; \<open>try_parse r f x\<close> is the
  \<open>try: x = f(parse(...), x) except (ValueError, TypeError): pass\<close> block, with the
  parse result \<open>r\<close>.
\<close>

definition if_truthy :: "string option \<Rightarrow> (string \<Rightarrow> 'a \<Rightarrow> 'a) \<Rightarrow> 'a \<Rightarrow> 'a" where
  "if_truthy v f x = (case v of None \<Rightarrow> x | Some s \<Rightarrow> if s = [] then x else f s x)"

definition try_parse :: "'b option \<Rightarrow> ('b \<Rightarrow> 'a \<Rightarrow> 'a) \<Rightarrow> 'a \<Rightarrow> 'a" where
  "try_parse r f x = (case r of None \<Rightarrow> x | Some n \<Rightarrow> f n x)"

section \<open>Request parameters\<close>

text \<open>
  \<open>request.GET\<close> is a \<open>QueryDict\<close>: every key has a list of values (empty when the key
  is absent); \<open>get\<close> returns the last value or the default, \<open>getlist\<close> the whole list.
\<close>

type_synonym querydict = "string \<Rightarrow> string list"

definition GET_get :: "querydict \<Rightarrow> string \<Rightarrow> string option" where
  "GET_get q k = (if q k = [] then None else Some (last (q k)))"

definition GET_get_default :: "querydict \<Rightarrow> string \<Rightarrow> string \<Rightarrow> string" where
  "GET_get_default q k d = (case GET_get q k of None \<Rightarrow> d | Some v \<Rightarrow> v)"

definition GET_getlist :: "querydict \<Rightarrow> string \<Rightarrow> string list" where
  "GET_getlist q k = q k"

section \<open>Data model\<close>

text \<open>
  Modelled from the spec: \<open>models.py\<close> is not among the sources. The records hold the
  fields that \<open>views.py\<close> and \<open>admin.py\<close> name; the five status values are those of
  \<open>status_badge\<close> in \<open>admin.py\<close>. The rows of the related tables (\<open>precos\<close>, \<open>fotos\<close>,
  and the many-to-many \<open>infraestrutura\<close>, by the key of the \<open>InfraCondominio\<close> row) are
  kept with the \<open>Imovel\<close> they belong to, in the order the database yields them.
  Choice fields (\<open>tipo\<close>, \<open>mobilia\<close>, \<open>finalidade\<close>) hold their stored string, numeric
  columns are exact rationals, timestamps are integers, and no column is null.
\<close>

datatype status_imovel = ATIVO | VENDIDO | ALUGADO | RESERVADO | INATIVO

record preco_por_finalidade =
  finalidade :: string
  valor :: rat

record foto_imovel =
  legenda :: string
  eh_capa :: bool
  ordem :: int

record imovel =
  pk :: int
  titulo :: string
  descricao :: string
  tipo :: string
  status :: status_imovel
  endereco :: string
  bairro :: string
  cidade :: string
  area_util :: rat
  quartos :: int
  banheiros :: int
  vagas_garagem :: int
  mobilia :: string
  pet_friendly :: bool
  aceita_financiamento :: bool
  criado_em :: int
  atualizado_em :: int
  precos :: "preco_por_finalidade list"
  fotos :: "foto_imovel list"
  infraestrutura :: "int list"

section \<open>The query set\<close>

text \<open>
  A query set is modelled by the rows its SQL join produces, in table order. A row
  carries the \<open>Imovel\<close> and the row of the most recently joined alias of the \<open>precos\<close>
  table (\<open>None\<close> while \<open>precos\<close> is not joined): that is the alias \<open>order_by\<close> on
  \<open>precos__valor\<close> reuses. Each \<open>filter()\<close> call on a multi-valued relation adds an
  inner join of its own, so a row is repeated once per matching related row.
\<close>

type_synonym linha = "imovel \<times> preco_por_finalidade option"

definition qs_all :: "imovel list \<Rightarrow> linha list" where
  "qs_all objects = map (\<lambda>i. (i, None)) objects"

definition qs_filter :: "(imovel \<Rightarrow> bool) \<Rightarrow> linha list \<Rightarrow> linha list" where
  "qs_filter P qs = filter (\<lambda>r. P (fst r)) qs"

definition qs_filter_precos :: "(preco_por_finalidade \<Rightarrow> bool) \<Rightarrow> linha list \<Rightarrow> linha list" where
  "qs_filter_precos P qs =
     concat (map (\<lambda>r. map (\<lambda>p. (fst r, Some p)) (filter P (precos (fst r)))) qs)"

definition qs_filter_fotos_notnull :: "linha list \<Rightarrow> linha list" where
  "qs_filter_fotos_notnull qs = concat (map (\<lambda>r. map (\<lambda>_. r) (fotos (fst r))) qs)"

definition qs_filter_infraestrutura :: "int \<Rightarrow> linha list \<Rightarrow> linha list" where
  "qs_filter_infraestrutura k qs =
     concat (map (\<lambda>r. map (\<lambda>_. r) (filter (\<lambda>a. a = k) (infraestrutura (fst r)))) qs)"

text \<open>
  Case-insensitive lookups fold the ASCII letters (the behaviour of \<open>LIKE\<close> in SQLite;
  other collations differ on letters outside ASCII).
\<close>

definition icontains :: "string \<Rightarrow> string \<Rightarrow> bool" where
  "icontains col pat \<longleftrightarrow> sublist (lower pat) (lower col)"

definition iexact :: "string \<Rightarrow> string \<Rightarrow> bool" where
  "iexact col pat \<longleftrightarrow> lower col = lower pat"

text \<open>
  \<open>column >= x\<close> and \<open>column <= x\<close> for a parsed float \<open>x\<close>, with the comparisons of
  IEEE 754 on the non-finite values.
\<close>

fun gte_float :: "rat \<Rightarrow> pyfloat \<Rightarrow> bool" where
  "gte_float c (Finite x) = (x \<le> c)"
| "gte_float c PosInf = False"
| "gte_float c NegInf = True"
| "gte_float c NaN = False"

fun lte_float :: "rat \<Rightarrow> pyfloat \<Rightarrow> bool" where
  "lte_float c (Finite x) = (c \<le> x)"
| "lte_float c PosInf = True"
| "lte_float c NegInf = False"
| "lte_float c NaN = False"


subsection \<open>Ordering, \<open>distinct()\<close> and \<open>count()\<close>\<close>

datatype ordering =
    Precos_valor
  | Desc_precos_valor
  | Desc_criado_em
  | Desc_area_util
  | Desc_criado_em_atualizado_em

text \<open>
  \<open>order_by\<close> on \<open>precos__valor\<close> reuses the most recent join of \<open>precos\<close>; when there
  is none it adds a left outer join, which keeps an \<open>Imovel\<close> without prices with a
  null price.
\<close>

definition join_precos :: "linha list \<Rightarrow> linha list" where
  "join_precos qs =
     concat (map (\<lambda>r. case snd r of
                         Some p \<Rightarrow> [r]
                       | None \<Rightarrow> if precos (fst r) = [] then [(fst r, None)]
                                 else map (\<lambda>p. (fst r, Some p)) (precos (fst r))) qs)"

text \<open>
  Sort keys for a nullable price column, null being the smallest value (as SQLite and
  MySQL order it): first when ascending, last when descending.
\<close>

definition asc_nulls_first :: "rat option \<Rightarrow> nat \<times> rat" where
  "asc_nulls_first v = (case v of None \<Rightarrow> (0, 0) | Some x \<Rightarrow> (1, x))"

definition desc_nulls_last :: "rat option \<Rightarrow> nat \<times> rat" where
  "desc_nulls_last v = (case v of None \<Rightarrow> (1, 0) | Some x \<Rightarrow> (0, - x))"

definition select_with_valor :: "linha list \<Rightarrow> (imovel \<times> rat option) list" where
  "select_with_valor qs = map (\<lambda>r. (fst r, map_option valor (snd r))) qs"

text \<open>
  The objects that the ordered query with \<open>distinct()\<close> yields. \<open>SELECT DISTINCT\<close>
  compares the selected columns: those of \<open>Imovel\<close> and, as Django adds every
  \<open>order_by\<close> column of a related model to the selected columns, \<open>precos.valor\<close> when
  the order is by price. Rows that tie on the sort key keep their table order.
\<close>

fun qs_distinct_ordered :: "ordering \<Rightarrow> linha list \<Rightarrow> imovel list" where
  "qs_distinct_ordered Precos_valor qs =
     map fst (sort_key (\<lambda>r. asc_nulls_first (snd r)) (remdups (select_with_valor (join_precos qs))))"
| "qs_distinct_ordered Desc_precos_valor qs =
     map fst (sort_key (\<lambda>r. desc_nulls_last (snd r)) (remdups (select_with_valor (join_precos qs))))"
| "qs_distinct_ordered Desc_criado_em qs =
     sort_key (\<lambda>i. - criado_em i) (remdups (map fst qs))"
| "qs_distinct_ordered Desc_area_util qs =
     sort_key (\<lambda>i. - area_util i) (remdups (map fst qs))"
| "qs_distinct_ordered Desc_criado_em_atualizado_em qs =
     sort_key (\<lambda>i. (- criado_em i, - atualizado_em i)) (remdups (map fst qs))"

text \<open>
  \<open>count()\<close> of a query with \<open>distinct()\<close> counts the rows of the distinct subquery
  with its ordering cleared, so only the columns of \<open>Imovel\<close> are compared.
\<close>

definition qs_distinct_count :: "linha list \<Rightarrow> nat" where
  "qs_distinct_count qs = length (remdups (map fst qs))"

section \<open>The paginator\<close>

text \<open>
  \<open>django.core.paginator.Paginator\<close> with \<open>orphans = 0\<close> and
  \<open>allow_empty_first_page = True\<close>, its defaults.
\<close>

datatype page_error = PageNotAnInteger | EmptyPage

record page =
  object_list :: "imovel list"
  number :: nat

definition num_pages :: "nat \<Rightarrow> nat \<Rightarrow> nat" where
  "num_pages per_page count = (let hits = max 1 count in (hits + per_page - 1) div per_page)"

definition validate_number :: "nat \<Rightarrow> string option \<Rightarrow> page_error + nat" where
  "validate_number pages raw =
     (case raw of
        None \<Rightarrow> Inl PageNotAnInteger
      | Some s \<Rightarrow>
          (case py_int s of
             None \<Rightarrow> Inl PageNotAnInteger
           | Some n \<Rightarrow> if n < 1 then Inl EmptyPage
                       else if n > int pages then Inl EmptyPage
                       else Inr (nat n)))"

definition get_page :: "ordering \<Rightarrow> linha list \<Rightarrow> nat \<Rightarrow> string option \<Rightarrow> page" where
  "get_page ord qs per_page page_number =
     (let count = qs_distinct_count qs;
          pages = num_pages per_page count;
          n = (case validate_number pages page_number of
                 Inl PageNotAnInteger \<Rightarrow> 1
               | Inl EmptyPage \<Rightarrow> pages
               | Inr n \<Rightarrow> n);
          bottom = (n - 1) * per_page;
          top = bottom + per_page;
          top = (if top + 0 \<ge> count then count else top)
      in \<lparr>object_list = take (top - bottom) (drop bottom (qs_distinct_ordered ord qs)),
          number = n\<rparr>)"


section \<open>The view \<open>lista_imoveis\<close>\<close>

subsection \<open>The filters, one per block of the source\<close>

definition filtro_busca :: "string \<Rightarrow> linha list \<Rightarrow> linha list" where
  "filtro_busca busca imoveis =
     (if busca \<noteq> [] then
        qs_filter (\<lambda>i. icontains (titulo i) busca \<or> icontains (endereco i) busca
                     \<or> icontains (bairro i) busca \<or> icontains (cidade i) busca
                     \<or> icontains (descricao i) busca) imoveis
      else imoveis)"

definition filtro_finalidade :: "string option \<Rightarrow> linha list \<Rightarrow> linha list" where
  "filtro_finalidade v imoveis =
     if_truthy v (\<lambda>s. qs_filter_precos (\<lambda>p. finalidade p = s)) imoveis"

definition filtro_tipo :: "string option \<Rightarrow> linha list \<Rightarrow> linha list" where
  "filtro_tipo v imoveis = if_truthy v (\<lambda>s. qs_filter (\<lambda>i. tipo i = s)) imoveis"

definition filtro_cidade :: "string option \<Rightarrow> linha list \<Rightarrow> linha list" where
  "filtro_cidade v imoveis = if_truthy v (\<lambda>s. qs_filter (\<lambda>i. iexact (cidade i) s)) imoveis"

definition filtro_bairro :: "string option \<Rightarrow> linha list \<Rightarrow> linha list" where
  "filtro_bairro v imoveis = if_truthy v (\<lambda>s. qs_filter (\<lambda>i. icontains (bairro i) s)) imoveis"

definition filtro_quartos :: "string option \<Rightarrow> linha list \<Rightarrow> linha list" where
  "filtro_quartos v imoveis =
     if_truthy v (\<lambda>s. try_parse (py_int s) (\<lambda>n. qs_filter (\<lambda>i. n \<le> quartos i))) imoveis"

definition filtro_banheiros :: "string option \<Rightarrow> linha list \<Rightarrow> linha list" where
  "filtro_banheiros v imoveis =
     if_truthy v (\<lambda>s. try_parse (py_int s) (\<lambda>n. qs_filter (\<lambda>i. n \<le> banheiros i))) imoveis"

definition filtro_vagas :: "string option \<Rightarrow> linha list \<Rightarrow> linha list" where
  "filtro_vagas v imoveis =
     if_truthy v (\<lambda>s. try_parse (py_int s) (\<lambda>n. qs_filter (\<lambda>i. n \<le> vagas_garagem i))) imoveis"

definition filtro_area_min :: "string option \<Rightarrow> linha list \<Rightarrow> linha list" where
  "filtro_area_min v imoveis =
     if_truthy v (\<lambda>s. try_parse (py_float s) (\<lambda>x. qs_filter (\<lambda>i. gte_float (area_util i) x)))
       imoveis"

definition filtro_preco_min :: "string option \<Rightarrow> linha list \<Rightarrow> linha list" where
  "filtro_preco_min v imoveis =
     if_truthy v (\<lambda>s. try_parse (py_float s) (\<lambda>x. qs_filter_precos (\<lambda>p. gte_float (valor p) x)))
       imoveis"

definition filtro_preco_max :: "string option \<Rightarrow> linha list \<Rightarrow> linha list" where
  "filtro_preco_max v imoveis =
     if_truthy v (\<lambda>s. try_parse (py_float s) (\<lambda>x. qs_filter_precos (\<lambda>p. lte_float (valor p) x)))
       imoveis"

definition filtro_mobilia :: "string option \<Rightarrow> linha list \<Rightarrow> linha list" where
  "filtro_mobilia v imoveis = if_truthy v (\<lambda>s. qs_filter (\<lambda>i. mobilia i = s)) imoveis"

definition filtro_pet_friendly :: "string option \<Rightarrow> linha list \<Rightarrow> linha list" where
  "filtro_pet_friendly v imoveis =
     (if v = Some ''true'' then qs_filter (\<lambda>i. pet_friendly i) imoveis else imoveis)"

definition filtro_financiamento :: "string option \<Rightarrow> linha list \<Rightarrow> linha list" where
  "filtro_financiamento v imoveis =
     (if v = Some ''true'' then qs_filter (\<lambda>i. aceita_financiamento i) imoveis else imoveis)"

definition filtro_com_fotos :: "string option \<Rightarrow> linha list \<Rightarrow> linha list" where
  "filtro_com_fotos v imoveis =
     (if v = Some ''true'' then qs_filter_fotos_notnull imoveis else imoveis)"

text \<open>The loop over \<open>infraestrutura_ids\<close>: one \<open>filter()\<close> call per identifier that parses.\<close>

fun filtro_infraestrutura :: "string list \<Rightarrow> linha list \<Rightarrow> linha list" where
  "filtro_infraestrutura [] imoveis = imoveis"
| "filtro_infraestrutura (infra_id # ids) imoveis =
     filtro_infraestrutura ids
       (try_parse (py_int infra_id) (\<lambda>k. qs_filter_infraestrutura k) imoveis)"

text \<open>The query set after all the filters, before ordering.\<close>

definition imoveis_filtrados :: "querydict \<Rightarrow> imovel list \<Rightarrow> linha list" where
  "imoveis_filtrados GET objects =
     (let imoveis = qs_filter (\<lambda>i. status i = ATIVO) (qs_all objects);
          imoveis = filtro_busca (py_strip (GET_get_default GET ''busca'' [])) imoveis;
          imoveis = filtro_finalidade (GET_get GET ''finalidade'') imoveis;
          imoveis = filtro_tipo (GET_get GET ''tipo'') imoveis;
          imoveis = filtro_cidade (GET_get GET ''cidade'') imoveis;
          imoveis = filtro_bairro (GET_get GET ''bairro'') imoveis;
          imoveis = filtro_quartos (GET_get GET ''quartos'') imoveis;
          imoveis = filtro_banheiros (GET_get GET ''banheiros'') imoveis;
          imoveis = filtro_vagas (GET_get GET ''vagas'') imoveis;
          imoveis = filtro_area_min (GET_get GET ''area_min'') imoveis;
          imoveis = filtro_preco_min (GET_get GET ''preco_min'') imoveis;
          imoveis = filtro_preco_max (GET_get GET ''preco_max'') imoveis;
          imoveis = filtro_mobilia (GET_get GET ''mobilia'') imoveis;
          imoveis = filtro_pet_friendly (GET_get GET ''pet_friendly'') imoveis;
          imoveis = filtro_financiamento (GET_get GET ''financiamento'') imoveis;
          imoveis = filtro_com_fotos (GET_get GET ''com_fotos'') imoveis;
          imoveis = filtro_infraestrutura (GET_getlist GET ''infraestrutura'') imoveis
      in imoveis)"

subsection \<open>Ordering, pagination and the context\<close>

text \<open>
  The \<open>if\<close>/\<open>elif\<close> chain on \<open>ordenacao\<close>: the \<open>order_by\<close> it selects and the value
  of \<open>ordenacao\<close> afterwards (the last branch overwrites it).
\<close>

definition escolher_ordenacao :: "string \<Rightarrow> ordering \<times> string" where
  "escolher_ordenacao ordenacao =
     (if ordenacao = ''preco_menor'' then (Precos_valor, ordenacao)
      else if ordenacao = ''preco_maior'' then (Desc_precos_valor, ordenacao)
      else if ordenacao = ''mais_recentes'' then (Desc_criado_em, ordenacao)
      else if ordenacao = ''maior_area'' then (Desc_area_util, ordenacao)
      else (Desc_criado_em_atualizado_em, ''relevancia''))"

record filtros =
  f_busca :: string
  f_finalidade :: "string option"
  f_tipo :: "string option"
  f_cidade :: "string option"
  f_bairro :: "string option"
  f_quartos :: "string option"
  f_banheiros :: "string option"
  f_vagas :: "string option"
  f_area_min :: "string option"
  f_preco_min :: "string option"
  f_preco_max :: "string option"
  f_mobilia :: "string option"
  f_pet_friendly :: "string option"
  f_financiamento :: "string option"
  f_com_fotos :: "string option"
  f_infraestrutura :: "string list"
  f_ordenacao :: string

text \<open>
  The template context. The choice lists for the filter form (\<open>cidades\<close>,
  \<open>infraestruturas\<close>, \<open>tipos\<close>, \<open>finalidades\<close>, \<open>mobilias\<close>) do not depend on the
  request and are left out.
\<close>

record contexto =
  page_obj :: page
  total_imoveis :: nat
  filtros_aplicados :: filtros

definition lista_imoveis :: "querydict \<Rightarrow> imovel list \<Rightarrow> contexto" where
  "lista_imoveis GET objects =
     (let imoveis = imoveis_filtrados GET objects;
          (ord, ordenacao) = escolher_ordenacao (GET_get_default GET ''ordenacao'' ''relevancia'')
      in \<lparr>page_obj = get_page ord imoveis 12 (GET_get GET ''page''),
          total_imoveis = qs_distinct_count imoveis,
          filtros_aplicados =
            \<lparr>f_busca = py_strip (GET_get_default GET ''busca'' []),
             f_finalidade = GET_get GET ''finalidade'',
             f_tipo = GET_get GET ''tipo'',
             f_cidade = GET_get GET ''cidade'',
             f_bairro = GET_get GET ''bairro'',
             f_quartos = GET_get GET ''quartos'',
             f_banheiros = GET_get GET ''banheiros'',
             f_vagas = GET_get GET ''vagas'',
             f_area_min = GET_get GET ''area_min'',
             f_preco_min = GET_get GET ''preco_min'',
             f_preco_max = GET_get GET ''preco_max'',
             f_mobilia = GET_get GET ''mobilia'',
             f_pet_friendly = GET_get GET ''pet_friendly'',
             f_financiamento = GET_get GET ''financiamento'',
             f_com_fotos = GET_get GET ''com_fotos'',
             f_infraestrutura = GET_getlist GET ''infraestrutura'',
             f_ordenacao = ordenacao\<rparr>\<rparr>)"

section \<open>The view \<open>detalhe_imovel\<close>\<close>

text \<open>
  \<open>get_object_or_404\<close> turns \<open>DoesNotExist\<close> into \<open>Http404\<close>; \<open>get()\<close> raises
  \<open>MultipleObjectsReturned\<close> when more than one row matches, which is not caught.
\<close>

datatype http_error = Http404 | MultipleObjectsReturned

definition get_object_or_404 :: "(imovel \<Rightarrow> bool) \<Rightarrow> imovel list \<Rightarrow> http_error + imovel" where
  "get_object_or_404 P objects =
     (case filter P objects of
        [] \<Rightarrow> Inl Http404
      | [x] \<Rightarrow> Inr x
      | _ \<Rightarrow> Inl MultipleObjectsReturned)"

record detalhe =
  d_imovel :: imovel
  d_imoveis_similares :: "imovel list"
  d_whatsapp_msg :: string

definition detalhe_imovel :: "int \<Rightarrow> imovel list \<Rightarrow> http_error + detalhe" where
  "detalhe_imovel k objects =
     (case get_object_or_404 (\<lambda>i. pk i = k \<and> status i = ATIVO) objects of
        Inl e \<Rightarrow> Inl e
      | Inr imovel \<Rightarrow>
          Inr \<lparr>d_imovel = imovel,
               d_imoveis_similares =
                 take 4 (filter (\<lambda>i. tipo i = tipo imovel \<and> cidade i = cidade imovel
                                   \<and> status i = ATIVO \<and> pk i \<noteq> pk imovel) objects),
               d_whatsapp_msg =
                 ''Ol'' @ [CHR 0xE1] @ ''! Tenho interesse no im'' @ [CHR 0xF3] @ ''vel: ''
                 @ titulo imovel @ '' - '' @ endereco imovel @ '', '' @ bairro imovel
                 @ '', '' @ cidade imovel\<rparr>)"


section \<open>The facet predicates\<close>

text \<open>
  What each block of \<open>lista_imoveis\<close> requires of an \<open>Imovel\<close>, given the raw value of
  its parameter: nothing when the block applies no filter (parameter absent, empty, or
  not parsed), the lookup of its \<open>filter()\<close> call otherwise. A lookup through \<open>precos\<close>,
  \<open>fotos\<close> or \<open>infraestrutura\<close> holds when some related row satisfies it.
\<close>

definition cond_busca :: "string \<Rightarrow> imovel \<Rightarrow> bool" where
  "cond_busca busca i \<longleftrightarrow>
     busca = [] \<or> icontains (titulo i) busca \<or> icontains (endereco i) busca
       \<or> icontains (bairro i) busca \<or> icontains (cidade i) busca
       \<or> icontains (descricao i) busca"

definition cond_texto :: "string option \<Rightarrow> (string \<Rightarrow> imovel \<Rightarrow> bool) \<Rightarrow> imovel \<Rightarrow> bool" where
  "cond_texto v P i \<longleftrightarrow> (case v of None \<Rightarrow> True | Some s \<Rightarrow> s = [] \<or> P s i)"

definition cond_parsed ::
  "string option \<Rightarrow> (string \<Rightarrow> 'b option) \<Rightarrow> ('b \<Rightarrow> imovel \<Rightarrow> bool) \<Rightarrow> imovel \<Rightarrow> bool" where
  "cond_parsed v parse P i \<longleftrightarrow>
     (case v of
        None \<Rightarrow> True
      | Some s \<Rightarrow> s = [] \<or> (case parse s of None \<Rightarrow> True | Some n \<Rightarrow> P n i))"

definition cond_flag :: "string option \<Rightarrow> (imovel \<Rightarrow> bool) \<Rightarrow> imovel \<Rightarrow> bool" where
  "cond_flag v P i \<longleftrightarrow> (v = Some ''true'' \<longrightarrow> P i)"

definition cond_finalidade :: "string option \<Rightarrow> imovel \<Rightarrow> bool" where
  "cond_finalidade v = cond_texto v (\<lambda>s i. \<exists>p \<in> set (precos i). finalidade p = s)"

definition cond_tipo :: "string option \<Rightarrow> imovel \<Rightarrow> bool" where
  "cond_tipo v = cond_texto v (\<lambda>s i. tipo i = s)"

definition cond_cidade :: "string option \<Rightarrow> imovel \<Rightarrow> bool" where
  "cond_cidade v = cond_texto v (\<lambda>s i. iexact (cidade i) s)"

definition cond_bairro :: "string option \<Rightarrow> imovel \<Rightarrow> bool" where
  "cond_bairro v = cond_texto v (\<lambda>s i. icontains (bairro i) s)"

definition cond_quartos :: "string option \<Rightarrow> imovel \<Rightarrow> bool" where
  "cond_quartos v = cond_parsed v py_int (\<lambda>n i. n \<le> quartos i)"

definition cond_banheiros :: "string option \<Rightarrow> imovel \<Rightarrow> bool" where
  "cond_banheiros v = cond_parsed v py_int (\<lambda>n i. n \<le> banheiros i)"

definition cond_vagas :: "string option \<Rightarrow> imovel \<Rightarrow> bool" where
  "cond_vagas v = cond_parsed v py_int (\<lambda>n i. n \<le> vagas_garagem i)"

definition cond_area_min :: "string option \<Rightarrow> imovel \<Rightarrow> bool" where
  "cond_area_min v = cond_parsed v py_float (\<lambda>x i. gte_float (area_util i) x)"

definition cond_preco_min :: "string option \<Rightarrow> imovel \<Rightarrow> bool" where
  "cond_preco_min v =
     cond_parsed v py_float (\<lambda>x i. \<exists>p \<in> set (precos i). gte_float (valor p) x)"

definition cond_preco_max :: "string option \<Rightarrow> imovel \<Rightarrow> bool" where
  "cond_preco_max v =
     cond_parsed v py_float (\<lambda>x i. \<exists>p \<in> set (precos i). lte_float (valor p) x)"

definition cond_mobilia :: "string option \<Rightarrow> imovel \<Rightarrow> bool" where
  "cond_mobilia v = cond_texto v (\<lambda>s i. mobilia i = s)"

definition cond_pet_friendly :: "string option \<Rightarrow> imovel \<Rightarrow> bool" where
  "cond_pet_friendly v = cond_flag v (\<lambda>i. pet_friendly i)"

definition cond_financiamento :: "string option \<Rightarrow> imovel \<Rightarrow> bool" where
  "cond_financiamento v = cond_flag v (\<lambda>i. aceita_financiamento i)"

definition cond_com_fotos :: "string option \<Rightarrow> imovel \<Rightarrow> bool" where
  "cond_com_fotos v = cond_flag v (\<lambda>i. fotos i \<noteq> [])"

definition cond_infraestrutura :: "string list \<Rightarrow> imovel \<Rightarrow> bool" where
  "cond_infraestrutura ids i \<longleftrightarrow>
     (\<forall>s \<in> set ids. case py_int s of None \<Rightarrow> True | Some k \<Rightarrow> k \<in> set (infraestrutura i))"

text \<open>
  An \<open>Imovel\<close> qualifies for a request when it is among the rows of the filtered
  query set, before ordering, \<open>distinct()\<close> and pagination.
\<close>

definition qualifica :: "querydict \<Rightarrow> imovel list \<Rightarrow> imovel \<Rightarrow> bool" where
  "qualifica GET objects i \<longleftrightarrow> i \<in> fst ` set (imoveis_filtrados GET objects)"


text \<open>All the facet predicates of a request together.\<close>

definition corresponde :: "querydict \<Rightarrow> imovel \<Rightarrow> bool" where
  "corresponde GET i \<longleftrightarrow>
     cond_busca (py_strip (GET_get_default GET ''busca'' [])) i
     \<and> cond_finalidade (GET_get GET ''finalidade'') i
     \<and> cond_tipo (GET_get GET ''tipo'') i
     \<and> cond_cidade (GET_get GET ''cidade'') i
     \<and> cond_bairro (GET_get GET ''bairro'') i
     \<and> cond_quartos (GET_get GET ''quartos'') i
     \<and> cond_banheiros (GET_get GET ''banheiros'') i
     \<and> cond_vagas (GET_get GET ''vagas'') i
     \<and> cond_area_min (GET_get GET ''area_min'') i
     \<and> cond_preco_min (GET_get GET ''preco_min'') i
     \<and> cond_preco_max (GET_get GET ''preco_max'') i
     \<and> cond_mobilia (GET_get GET ''mobilia'') i
     \<and> cond_pet_friendly (GET_get GET ''pet_friendly'') i
     \<and> cond_financiamento (GET_get GET ''financiamento'') i
     \<and> cond_com_fotos (GET_get GET ''com_fotos'') i
     \<and> cond_infraestrutura (GET_getlist GET ''infraestrutura'') i"


section \<open>Example data\<close>

definition imovel_exemplo :: imovel where
  "imovel_exemplo =
     \<lparr>pk = 1, titulo = ''Casa'', descricao = ''Casa ampla'', tipo = ''casa'', status = ATIVO,
      endereco = ''Rua A, 10'', bairro = ''Centro'', cidade = ''Springfield'', area_util = 50,
      quartos = 2, banheiros = 1, vagas_garagem = 1, mobilia = ''mobiliado'',
      pet_friendly = True, aceita_financiamento = False, criado_em = 1, atualizado_em = 1,
      precos = [], fotos = [], infraestrutura = []\<rparr>"

definition preco :: "string \<Rightarrow> rat \<Rightarrow> preco_por_finalidade" where
  "preco f v = \<lparr>finalidade = f, valor = v\<rparr>"

definition sem_parametros :: querydict where
  "sem_parametros = (\<lambda>_. [])"

text \<open>
  Three active listings in Springfield with areas 50, 80 and 120, created in that order,
  and a sold one.
\<close>

definition springfield :: "imovel list" where
  "springfield =
     [imovel_exemplo,
      imovel_exemplo\<lparr>pk := 2, area_util := 80, criado_em := 2, atualizado_em := 2\<rparr>,
      imovel_exemplo\<lparr>pk := 3, area_util := 120, criado_em := 3, atualizado_em := 3\<rparr>,
      imovel_exemplo\<lparr>pk := 4, area_util := 200, status := VENDIDO\<rparr>]"

definition busca_springfield :: querydict where
  "busca_springfield = sem_parametros(''cidade'' := [''springfield''], ''area_min'' := [''75''])"

definition treze :: "imovel list" where
  "treze = map (\<lambda>n. imovel_exemplo\<lparr>pk := int n, criado_em := int n\<rparr>) [1..<14]"

definition pagina_2 :: querydict where
  "pagina_2 = sem_parametros(''page'' := [''2''])"

definition ordenacao_invalida :: querydict where
  "ordenacao_invalida = sem_parametros(''ordenacao'' := [''bogus''])"

text \<open>The search result of a context: the page and the total count.\<close>

definition resultado :: "contexto \<Rightarrow> page \<times> nat" where
  "resultado ctx = (page_obj ctx, total_imoveis ctx)"

definition quartos_abc :: querydict where
  "quartos_abc = busca_springfield(''quartos'' := [''abc''])"

definition com_e_sem_pet :: "imovel list" where
  "com_e_sem_pet = [imovel_exemplo, imovel_exemplo\<lparr>pk := 2, pet_friendly := False\<rparr>]"

definition pet_True :: querydict where
  "pet_True = sem_parametros(''pet_friendly'' := [''True''])"

definition pet_true :: querydict where
  "pet_true = sem_parametros(''pet_friendly'' := [''true''])"

text \<open>A listing with the amenities 1 and 2, and requests for amenities by identifier.\<close>

definition casa_ab :: imovel where
  "casa_ab = imovel_exemplo\<lparr>infraestrutura := [1, 2]\<rparr>"

definition pede_infra :: "string list \<Rightarrow> querydict" where
  "pede_infra ids = sem_parametros(''infraestrutura'' := ids)"

text \<open>A listing priced 100 for sale and 1000 for rent, and a request for prices from 200 to 500.\<close>

definition casa_100_1000 :: imovel where
  "casa_100_1000 = imovel_exemplo\<lparr>precos := [preco ''venda'' 100, preco ''aluguel'' 1000]\<rparr>"

definition faixa_200_500 :: querydict where
  "faixa_200_500 = sem_parametros(''preco_min'' := [''200''], ''preco_max'' := [''500''])"

text \<open>
  A listing with three prices between 50 and 400 and a listing with one, and a request
  for that price range ordered by ascending price.
\<close>

definition casa_tres_precos :: imovel where
  "casa_tres_precos =
     imovel_exemplo\<lparr>precos := [preco ''venda'' 100, preco ''aluguel'' 200,
                                preco ''temporada'' 300]\<rparr>"

definition casa_um_preco :: imovel where
  "casa_um_preco = imovel_exemplo\<lparr>pk := 2, precos := [preco ''venda'' 350]\<rparr>"

definition faixa_por_preco :: querydict where
  "faixa_por_preco =
     sem_parametros(''preco_min'' := [''50''], ''preco_max'' := [''400''],
                    ''ordenacao'' := [''preco_menor''])"

section \<open>Properties of the query set\<close>

text \<open>The first components of the rows are the objects that a filter keeps.\<close>

lemma fst_set_qs_all: "fst ` set (qs_all objects) = set objects"
  by (simp add: qs_all_def image_image)

lemma fst_set_qs_filter: "fst ` set (qs_filter P qs) = {i \<in> fst ` set qs. P i}"
  by (auto simp: qs_filter_def)

lemma fst_set_qs_filter_precos:
  "fst ` set (qs_filter_precos P qs) = {i \<in> fst ` set qs. \<exists>p \<in> set (precos i). P p}"
proof (induction qs)
  case Nil
  show ?case by (simp add: qs_filter_precos_def)
next
  case (Cons r qs)
  have "fst ` set (qs_filter_precos P (r # qs)) =
        fst ` set (map (\<lambda>p. (fst r, Some p)) (filter P (precos (fst r))))
        \<union> fst ` set (qs_filter_precos P qs)"
    by (simp add: qs_filter_precos_def image_Un)
  also have "fst ` set (map (\<lambda>p. (fst r, Some p)) (filter P (precos (fst r)))) =
        {i. i = fst r \<and> (\<exists>p \<in> set (precos i). P p)}"
    by (auto simp: image_iff)
  finally show ?case using Cons.IH by auto
qed

lemma fst_set_qs_filter_fotos:
  "fst ` set (qs_filter_fotos_notnull qs) = {i \<in> fst ` set qs. fotos i \<noteq> []}"
proof (induction qs)
  case Nil
  show ?case by (simp add: qs_filter_fotos_notnull_def)
next
  case (Cons r qs)
  have "fst ` set (qs_filter_fotos_notnull (r # qs)) =
        fst ` set (map (\<lambda>_. r) (fotos (fst r))) \<union> fst ` set (qs_filter_fotos_notnull qs)"
    by (simp add: qs_filter_fotos_notnull_def image_Un)
  also have "fst ` set (map (\<lambda>_. r) (fotos (fst r))) = {i. i = fst r \<and> fotos i \<noteq> []}"
    by (cases "fotos (fst r)") auto
  finally show ?case using Cons.IH by auto
qed

lemma fst_set_qs_filter_infra:
  "fst ` set (qs_filter_infraestrutura k qs) = {i \<in> fst ` set qs. k \<in> set (infraestrutura i)}"
proof (induction qs)
  case Nil
  show ?case by (simp add: qs_filter_infraestrutura_def)
next
  case (Cons r qs)
  have "fst ` set (qs_filter_infraestrutura k (r # qs)) =
        fst ` set (map (\<lambda>_. r) (filter (\<lambda>a. a = k) (infraestrutura (fst r))))
        \<union> fst ` set (qs_filter_infraestrutura k qs)"
    by (simp add: qs_filter_infraestrutura_def image_Un)
  also have "fst ` set (map (\<lambda>_. r) (filter (\<lambda>a. a = k) (infraestrutura (fst r)))) =
        {i. i = fst r \<and> k \<in> set (infraestrutura i)}"
    by (auto simp: image_iff)
  finally show ?case using Cons.IH by auto
qed

text \<open>Each filter of the view keeps the rows whose Imovel satisfies its predicate.\<close>

lemma set_filtro_busca:
  "fst ` set (filtro_busca b qs) = {i \<in> fst ` set qs. cond_busca b i}"
  by (auto simp: filtro_busca_def cond_busca_def fst_set_qs_filter)

lemma set_texto_cols:
  "fst ` set (if_truthy v (\<lambda>s. qs_filter (P s)) qs) =
     {i \<in> fst ` set qs. cond_texto v (\<lambda>s i. P s i) i}"
  by (cases v) (auto simp: if_truthy_def cond_texto_def fst_set_qs_filter)

lemma set_texto_precos:
  "fst ` set (if_truthy v (\<lambda>s. qs_filter_precos (P s)) qs) =
     {i \<in> fst ` set qs. cond_texto v (\<lambda>s i. \<exists>p \<in> set (precos i). P s p) i}"
  by (cases v) (auto simp: if_truthy_def cond_texto_def fst_set_qs_filter_precos)

lemma set_parsed_cols:
  "fst ` set (if_truthy v (\<lambda>s. try_parse (parse s) (\<lambda>n. qs_filter (P n))) qs) =
     {i \<in> fst ` set qs. cond_parsed v parse (\<lambda>n i. P n i) i}"
  by (cases v)
     (auto simp: if_truthy_def try_parse_def cond_parsed_def fst_set_qs_filter
           split: option.splits)

lemma set_parsed_precos:
  "fst ` set (if_truthy v (\<lambda>s. try_parse (parse s) (\<lambda>n. qs_filter_precos (P n))) qs) =
     {i \<in> fst ` set qs. cond_parsed v parse (\<lambda>n i. \<exists>p \<in> set (precos i). P n p) i}"
  by (cases v)
     (auto simp: if_truthy_def try_parse_def cond_parsed_def fst_set_qs_filter_precos
           split: option.splits)

lemma set_filtro_finalidade:
  "fst ` set (filtro_finalidade v qs) = {i \<in> fst ` set qs. cond_finalidade v i}"
  unfolding filtro_finalidade_def cond_finalidade_def by (rule set_texto_precos)

lemma set_filtro_tipo: "fst ` set (filtro_tipo v qs) = {i \<in> fst ` set qs. cond_tipo v i}"
  unfolding filtro_tipo_def cond_tipo_def by (rule set_texto_cols)

lemma set_filtro_cidade: "fst ` set (filtro_cidade v qs) = {i \<in> fst ` set qs. cond_cidade v i}"
  unfolding filtro_cidade_def cond_cidade_def by (rule set_texto_cols)

lemma set_filtro_bairro: "fst ` set (filtro_bairro v qs) = {i \<in> fst ` set qs. cond_bairro v i}"
  unfolding filtro_bairro_def cond_bairro_def by (rule set_texto_cols)

lemma set_filtro_quartos:
  "fst ` set (filtro_quartos v qs) = {i \<in> fst ` set qs. cond_quartos v i}"
  unfolding filtro_quartos_def cond_quartos_def by (rule set_parsed_cols)

lemma set_filtro_banheiros:
  "fst ` set (filtro_banheiros v qs) = {i \<in> fst ` set qs. cond_banheiros v i}"
  unfolding filtro_banheiros_def cond_banheiros_def by (rule set_parsed_cols)

lemma set_filtro_vagas:
  "fst ` set (filtro_vagas v qs) = {i \<in> fst ` set qs. cond_vagas v i}"
  unfolding filtro_vagas_def cond_vagas_def by (rule set_parsed_cols)

lemma set_filtro_area_min:
  "fst ` set (filtro_area_min v qs) = {i \<in> fst ` set qs. cond_area_min v i}"
  unfolding filtro_area_min_def cond_area_min_def by (rule set_parsed_cols)

lemma set_filtro_preco_min:
  "fst ` set (filtro_preco_min v qs) = {i \<in> fst ` set qs. cond_preco_min v i}"
  unfolding filtro_preco_min_def cond_preco_min_def by (rule set_parsed_precos)

lemma set_filtro_preco_max:
  "fst ` set (filtro_preco_max v qs) = {i \<in> fst ` set qs. cond_preco_max v i}"
  unfolding filtro_preco_max_def cond_preco_max_def by (rule set_parsed_precos)

lemma set_filtro_mobilia:
  "fst ` set (filtro_mobilia v qs) = {i \<in> fst ` set qs. cond_mobilia v i}"
  unfolding filtro_mobilia_def cond_mobilia_def by (rule set_texto_cols)

lemma set_filtro_pet_friendly:
  "fst ` set (filtro_pet_friendly v qs) = {i \<in> fst ` set qs. cond_pet_friendly v i}"
  by (auto simp: filtro_pet_friendly_def cond_pet_friendly_def cond_flag_def fst_set_qs_filter)

lemma set_filtro_financiamento:
  "fst ` set (filtro_financiamento v qs) = {i \<in> fst ` set qs. cond_financiamento v i}"
  by (auto simp: filtro_financiamento_def cond_financiamento_def cond_flag_def fst_set_qs_filter)

lemma set_filtro_com_fotos:
  "fst ` set (filtro_com_fotos v qs) = {i \<in> fst ` set qs. cond_com_fotos v i}"
  by (auto simp: filtro_com_fotos_def cond_com_fotos_def cond_flag_def fst_set_qs_filter_fotos)

lemma set_filtro_infraestrutura:
  "fst ` set (filtro_infraestrutura ids qs) = {i \<in> fst ` set qs. cond_infraestrutura ids i}"
proof (induction ids arbitrary: qs)
  case Nil
  show ?case by (simp add: cond_infraestrutura_def)
next
  case (Cons s ids)
  show ?case
  proof (cases "py_int s")
    case None
    then show ?thesis using Cons.IH [of qs]
      by (simp add: try_parse_def cond_infraestrutura_def)
  next
    case (Some k)
    then show ?thesis using Cons.IH [of "qs_filter_infraestrutura k qs"]
      by (auto simp: try_parse_def cond_infraestrutura_def fst_set_qs_filter_infra)
  qed
qed

lemmas set_filtros =
  set_filtro_busca set_filtro_finalidade set_filtro_tipo set_filtro_cidade set_filtro_bairro
  set_filtro_quartos set_filtro_banheiros set_filtro_vagas set_filtro_area_min
  set_filtro_preco_min set_filtro_preco_max set_filtro_mobilia set_filtro_pet_friendly
  set_filtro_financiamento set_filtro_com_fotos set_filtro_infraestrutura

lemma set_imoveis_filtrados:
  "fst ` set (imoveis_filtrados GET objects) =
     {i \<in> set objects. status i = ATIVO \<and> corresponde GET i}"
  unfolding imoveis_filtrados_def Let_def set_filtros fst_set_qs_filter fst_set_qs_all corresponde_def
  by blast

lemma qualifica_iff:
  "qualifica GET objects i \<longleftrightarrow> i \<in> set objects \<and> status i = ATIVO \<and> corresponde GET i"
  by (simp add: qualifica_def set_imoveis_filtrados)

section \<open>Properties of ordering and pagination\<close>

lemma fst_set_join_precos: "fst ` set (join_precos qs) = fst ` set qs"
proof (induction qs)
  case Nil
  show ?case by (simp add: join_precos_def)
next
  case (Cons r qs)
  have step: "join_precos (r # qs) =
      (case snd r of Some p \<Rightarrow> [r]
       | None \<Rightarrow> if precos (fst r) = [] then [(fst r, None)]
                 else map (\<lambda>p. (fst r, Some p)) (precos (fst r))) @ join_precos qs"
    by (simp add: join_precos_def)
  have "fst ` set (case snd r of Some p \<Rightarrow> [r]
       | None \<Rightarrow> if precos (fst r) = [] then [(fst r, None)]
                 else map (\<lambda>p. (fst r, Some p)) (precos (fst r))) = {fst r}"
    by (cases "snd r"; cases "precos (fst r)") (auto simp: image_iff)
  then show ?case using Cons.IH by (simp add: step image_Un)
qed

lemma fst_set_select_with_valor: "fst ` set (select_with_valor qs) = fst ` set qs"
  by (simp add: select_with_valor_def image_image)

lemma set_qs_distinct_ordered: "set (qs_distinct_ordered ord qs) = fst ` set qs"
  by (cases ord) (simp_all add: fst_set_select_with_valor fst_set_join_precos)

lemma qs_distinct_count_card: "qs_distinct_count qs = card (fst ` set qs)"
  by (simp add: qs_distinct_count_def length_remdups_card_conv)

lemma length_remdups_fst: "length (remdups (map fst xs)) \<le> length (remdups xs)"
proof -
  have "card (fst ` set xs) \<le> card (set xs)" by (rule card_image_le) simp
  then show ?thesis by (simp add: length_remdups_card_conv)
qed

lemma count_le_length_ordered:
  "qs_distinct_count qs \<le> length (qs_distinct_ordered ord qs)"
proof -
  have "qs_distinct_count qs = card (fst ` set (select_with_valor (join_precos qs)))"
    by (simp add: qs_distinct_count_card fst_set_select_with_valor fst_set_join_precos)
  also have "\<dots> \<le> length (remdups (select_with_valor (join_precos qs)))"
    using length_remdups_fst [of "select_with_valor (join_precos qs)"]
    by (simp add: length_remdups_card_conv)
  finally have price: "qs_distinct_count qs \<le> length (remdups (select_with_valor (join_precos qs)))" .
  show ?thesis by (cases ord) (simp_all add: price, simp_all add: qs_distinct_count_def)
qed

lemma length_ordered_eq_count:
  "ord \<noteq> Precos_valor \<Longrightarrow> ord \<noteq> Desc_precos_valor \<Longrightarrow>
     length (qs_distinct_ordered ord qs) = qs_distinct_count qs"
  by (cases ord) (simp_all add: qs_distinct_count_def)

lemma distinct_ordered:
  "ord \<noteq> Precos_valor \<Longrightarrow> ord \<noteq> Desc_precos_valor \<Longrightarrow> distinct (qs_distinct_ordered ord qs)"
  by (cases ord) simp_all

lemma set_object_list_get_page:
  "set (object_list (get_page ord qs per_page pn)) \<subseteq> fst ` set qs"
proof -
  have "set (object_list (get_page ord qs per_page pn)) \<subseteq> set (qs_distinct_ordered ord qs)"
    unfolding get_page_def Let_def
    by (simp only: page.simps) (meson set_take_subset set_drop_subset subset_trans)
  then show ?thesis by (simp add: set_qs_distinct_ordered)
qed

lemma slice_length_le:
  "length (take ((if b + pp + 0 \<ge> c then c else b + pp) - b) (drop b xs)) \<le> (pp::nat)"
  by (cases "b + pp + 0 \<ge> c") simp_all

lemma length_object_list_get_page:
  "length (object_list (get_page ord qs per_page pn)) \<le> per_page"
  unfolding get_page_def Let_def page.simps by (rule slice_length_le)

lemma total_imoveis_lista:
  "total_imoveis (lista_imoveis GET objects) = qs_distinct_count (imoveis_filtrados GET objects)"
  by (simp add: lista_imoveis_def Let_def split: prod.split)

lemma page_obj_lista:
  "page_obj (lista_imoveis GET objects) =
     get_page (fst (escolher_ordenacao (GET_get_default GET ''ordenacao'' ''relevancia'')))
       (imoveis_filtrados GET objects) 12 (GET_get GET ''page'')"
  by (simp add: lista_imoveis_def Let_def split: prod.split)

lemma f_ordenacao_lista:
  "f_ordenacao (filtros_aplicados (lista_imoveis GET objects)) =
     snd (escolher_ordenacao (GET_get_default GET ''ordenacao'' ''relevancia''))"
  by (simp add: lista_imoveis_def Let_def split: prod.split)

lemma total_imoveis_card:
  "total_imoveis (lista_imoveis GET objects) =
     card {i \<in> set objects. status i = ATIVO \<and> corresponde GET i}"
  by (simp add: total_imoveis_lista qs_distinct_count_card set_imoveis_filtrados)

lemma page_subset_qualifica:
  "i \<in> set (object_list (page_obj (lista_imoveis GET objects))) \<Longrightarrow>
     i \<in> set objects \<and> status i = ATIVO \<and> corresponde GET i"
  using set_object_list_get_page [of _ "imoveis_filtrados GET objects" 12 "GET_get GET ''page''"]
  by (auto simp: page_obj_lista set_imoveis_filtrados)


section \<open>Properties of \<open>detalhe_imovel\<close>\<close>

lemma unique_key_filter:
  assumes "distinct (map f xs)"
  shows "length (filter (\<lambda>x. f x = k \<and> P x) xs) \<le> 1"
proof -
  let ?ys = "filter (\<lambda>x. f x = k \<and> P x) xs"
  have d: "distinct (map f ?ys)" using assms by (rule distinct_map_filter)
  have k: "\<forall>y \<in> set ?ys. f y = k" by simp
  show ?thesis
  proof (cases ?ys)
    case Nil
    then show ?thesis by simp
  next
    case (Cons a zs)
    show ?thesis
    proof (cases zs)
      case Nil
      with Cons show ?thesis by simp
    next
      case (Cons b ws)
      with \<open>?ys = a # zs\<close> have "?ys = a # b # ws" by simp
      with d k have False by (metis distinct_length_2_or_more list.set_intros(1,2) list.simps(9))
      then show ?thesis ..
    qed
  qed
qed

lemma get_object_or_404_cases:
  assumes "distinct (map pk objects)"
  shows "(filter (\<lambda>i. pk i = k \<and> status i = ATIVO) objects = []
            \<and> get_object_or_404 (\<lambda>i. pk i = k \<and> status i = ATIVO) objects = Inl Http404)
       \<or> (\<exists>x. filter (\<lambda>i. pk i = k \<and> status i = ATIVO) objects = [x]
            \<and> get_object_or_404 (\<lambda>i. pk i = k \<and> status i = ATIVO) objects = Inr x)"
proof -
  let ?ys = "filter (\<lambda>i. pk i = k \<and> status i = ATIVO) objects"
  have "length ?ys \<le> 1" using assms by (rule unique_key_filter)
  then consider "?ys = []" | x where "?ys = [x]"
    by (cases ?ys) (auto simp: Suc_le_eq)
  then show ?thesis
    by cases (simp_all add: get_object_or_404_def)
qed

lemma page_number_valid:
  assumes "py_int s = Some n" "1 \<le> n" "(nat n - 1) * 12 < c"
  shows "validate_number (num_pages 12 c) (Some s) = Inr (nat n)"
proof -
  from assms have "n \<le> int ((max 1 c + 12 - 1) div 12)" by (simp add: max_def)
  with assms show ?thesis by (simp add: validate_number_def num_pages_def Let_def)
qed

lemma slice_length:
  assumes "c \<le> length xs" "b < c"
  shows "length (take ((if b + pp + 0 \<ge> c then c else b + pp) - b) (drop b xs)) = min pp (c - b)"
  using assms by (cases "b + pp + 0 \<ge> c") simp_all

lemma length_get_page:
  assumes "py_int s = Some n" "1 \<le> n" "(nat n - 1) * 12 < qs_distinct_count qs"
  shows "length (object_list (get_page ord qs 12 (Some s)))
           = min 12 (qs_distinct_count qs - (nat n - 1) * 12)
         \<and> number (get_page ord qs 12 (Some s)) = nat n"
proof -
  have v: "validate_number (num_pages 12 (qs_distinct_count qs)) (Some s) = Inr (nat n)"
    using assms by (rule page_number_valid)
  have l: "qs_distinct_count qs \<le> length (qs_distinct_ordered ord qs)"
    by (rule count_le_length_ordered)
  show ?thesis
    unfolding get_page_def Let_def v page.simps sum.case
    using slice_length [OF l assms(3), of 12] by simp
qed

lemma GET_get_upd:
  "GET_get (GET(k := v)) k' =
     (if k' = k then (if v = [] then None else Some (last v)) else GET_get GET k')"
  by (simp add: GET_get_def)

lemma GET_get_default_upd:
  "GET_get_default (GET(k := v)) k' d =
     (if k' = k then (if v = [] then d else last v) else GET_get_default GET k' d)"
  by (simp add: GET_get_default_def GET_get_upd)

lemma GET_getlist_upd:
  "GET_getlist (GET(k := v)) k' = (if k' = k then v else GET_getlist GET k')"
  by (simp add: GET_getlist_def)

lemma imoveis_filtrados_ordenacao:
  "imoveis_filtrados (GET(''ordenacao'' := v)) objects = imoveis_filtrados GET objects"
  by (simp add: imoveis_filtrados_def GET_get_upd GET_get_default_upd GET_getlist_upd)

lemma escolher_ordenacao_relevancia:
  "s \<notin> {''preco_menor'', ''preco_maior'', ''mais_recentes'', ''maior_area''} \<Longrightarrow>
     escolher_ordenacao s = (Desc_criado_em_atualizado_em, ''relevancia'')"
  by (simp add: escolher_ordenacao_def)

lemma sorted_wrt_relevancia:
  "sorted_wrt (\<lambda>a b. criado_em a > criado_em b
                  \<or> (criado_em a = criado_em b \<and> atualizado_em a \<ge> atualizado_em b))
     (object_list (get_page Desc_criado_em_atualizado_em qs per_page pn))"
proof -
  let ?key = "\<lambda>i. (- criado_em i, - atualizado_em i)"
  let ?xs = "qs_distinct_ordered Desc_criado_em_atualizado_em qs"
  have "sorted (map ?key ?xs)" by simp
  then have "sorted_wrt (\<lambda>a b. ?key a \<le> ?key b) ?xs" by (simp add: sorted_map)
  then have "sorted_wrt (\<lambda>a b. criado_em a > criado_em b
                  \<or> (criado_em a = criado_em b \<and> atualizado_em a \<ge> atualizado_em b)) ?xs"
    by (rule sorted_wrt_mono_rel [rotated]) (auto simp: less_eq_prod_def)
  then show ?thesis
    unfolding get_page_def Let_def page.simps
    by (intro sorted_wrt_take sorted_wrt_drop)
qed

lemma resultado_cong:
  assumes "imoveis_filtrados GET' objects = imoveis_filtrados GET objects"
    and "GET' ''ordenacao'' = GET ''ordenacao''" and "GET' ''page'' = GET ''page''"
  shows "resultado (lista_imoveis GET' objects) = resultado (lista_imoveis GET objects)"
  using assms
  by (simp add: resultado_def page_obj_lista total_imoveis_lista GET_get_def GET_get_default_def)

lemmas GET_upd = GET_get_upd GET_get_default_upd GET_getlist_upd

lemma drop_int_param:
  assumes "k \<in> {''quartos'', ''banheiros'', ''vagas''}" "GET_get GET k = Some s" "py_int s = None"
  shows "imoveis_filtrados (GET(k := [])) objects = imoveis_filtrados GET objects"
proof -
  from assms(1) consider "k = ''quartos''" | "k = ''banheiros''" | "k = ''vagas''" by auto
  then show ?thesis
  proof cases
    case 1
    with assms show ?thesis
      by (simp add: imoveis_filtrados_def GET_upd filtro_quartos_def if_truthy_def try_parse_def Let_def)
  next
    case 2
    with assms show ?thesis
      by (simp add: imoveis_filtrados_def GET_upd filtro_banheiros_def if_truthy_def try_parse_def Let_def)
  next
    case 3
    with assms show ?thesis
      by (simp add: imoveis_filtrados_def GET_upd filtro_vagas_def if_truthy_def try_parse_def Let_def)
  qed
qed

lemma drop_float_param:
  assumes "k \<in> {''area_min'', ''preco_min'', ''preco_max''}" "GET_get GET k = Some s"
    "py_float s = None"
  shows "imoveis_filtrados (GET(k := [])) objects = imoveis_filtrados GET objects"
proof -
  from assms(1) consider "k = ''area_min''" | "k = ''preco_min''" | "k = ''preco_max''" by auto
  then show ?thesis
  proof cases
    case 1
    with assms show ?thesis
      by (simp add: imoveis_filtrados_def GET_upd filtro_area_min_def if_truthy_def try_parse_def Let_def)
  next
    case 2
    with assms show ?thesis
      by (simp add: imoveis_filtrados_def GET_upd filtro_preco_min_def if_truthy_def try_parse_def Let_def)
  next
    case 3
    with assms show ?thesis
      by (simp add: imoveis_filtrados_def GET_upd filtro_preco_max_def if_truthy_def try_parse_def Let_def)
  qed
qed

lemma filtro_infraestrutura_append:
  "filtro_infraestrutura (xs @ ys) qs = filtro_infraestrutura ys (filtro_infraestrutura xs qs)"
  by (induction xs arbitrary: qs) simp_all

lemma filtro_infraestrutura_drop:
  "py_int s = None \<Longrightarrow>
     filtro_infraestrutura (xs @ s # ys) qs = filtro_infraestrutura (xs @ ys) qs"
  by (simp add: filtro_infraestrutura_append try_parse_def)

lemma drop_infra_id:
  assumes "GET_getlist GET ''infraestrutura'' = xs @ s # ys" "py_int s = None"
  shows "imoveis_filtrados (GET(''infraestrutura'' := xs @ ys)) objects
           = imoveis_filtrados GET objects"
  using assms
  by (simp add: imoveis_filtrados_def GET_upd filtro_infraestrutura_drop)

lemma py_int_abc: "py_int ''abc'' = None"
  by code_simp

lemma drop_flag_param:
  assumes "k \<in> {''pet_friendly'', ''financiamento'', ''com_fotos''}"
    "GET_get GET k \<noteq> Some ''true''"
  shows "imoveis_filtrados (GET(k := [])) objects = imoveis_filtrados GET objects"
proof -
  from assms(1) consider "k = ''pet_friendly''" | "k = ''financiamento''" | "k = ''com_fotos''"
    by auto
  then show ?thesis
  proof cases
    case 1
    with assms show ?thesis
      by (simp add: imoveis_filtrados_def GET_upd filtro_pet_friendly_def Let_def)
  next
    case 2
    with assms show ?thesis
      by (simp add: imoveis_filtrados_def GET_upd filtro_financiamento_def Let_def)
  next
    case 3
    with assms show ?thesis
      by (simp add: imoveis_filtrados_def GET_upd filtro_com_fotos_def Let_def)
  qed
qed

lemma corresponde_infra:
  "corresponde GET i \<longleftrightarrow>
     corresponde (GET(''infraestrutura'' := [])) i
     \<and> cond_infraestrutura (GET_getlist GET ''infraestrutura'') i"
  by (auto simp: corresponde_def GET_upd cond_infraestrutura_def)

lemma cond_infraestrutura_iff:
  "cond_infraestrutura ids i \<longleftrightarrow>
     (\<forall>s \<in> set ids. \<forall>k. py_int s = Some k \<longrightarrow> k \<in> set (infraestrutura i))"
  by (auto simp: cond_infraestrutura_def split: option.splits)

lemma cond_parsed_iff:
  "cond_parsed v parse P i \<longleftrightarrow> (\<forall>s x. v = Some s \<and> s \<noteq> [] \<and> parse s = Some x \<longrightarrow> P x i)"
  by (cases v) (auto simp: cond_parsed_def split: option.splits)

lemma corresponde_precos:
  "corresponde GET i \<longleftrightarrow>
     corresponde (GET(''preco_min'' := [], ''preco_max'' := [])) i
     \<and> cond_preco_min (GET_get GET ''preco_min'') i
     \<and> cond_preco_max (GET_get GET ''preco_max'') i"
proof -
  have "cond_preco_min None i" "cond_preco_max None i"
    by (simp_all add: cond_preco_min_def cond_preco_max_def cond_parsed_def)
  then show ?thesis
    by (simp add: corresponde_def GET_upd) blast
qed

lemma page_distinct_unless_price:
  assumes "GET_get_default GET ''ordenacao'' ''relevancia'' \<notin> {''preco_menor'', ''preco_maior''}"
  shows "distinct (object_list (page_obj (lista_imoveis GET objects)))"
proof -
  let ?ord = "fst (escolher_ordenacao (GET_get_default GET ''ordenacao'' ''relevancia''))"
  from assms have "?ord \<noteq> Precos_valor" "?ord \<noteq> Desc_precos_valor"
    by (auto simp: escolher_ordenacao_def)
  then have "distinct (qs_distinct_ordered ?ord (imoveis_filtrados GET objects))"
    by (rule distinct_ordered)
  then show ?thesis
    by (simp add: page_obj_lista get_page_def Let_def)
qed

section \<open>The claims\<close>

text \<open>
  C1. For every request and store, the count that \<open>lista_imoveis\<close> reports is at most
  the number of active listings of the store, and every listing on the returned page
  satisfies every facet predicate that the request applies: free text, purpose, type,
  city, district, minimum rooms, bathrooms and parking spaces, minimum area, each price
  bound, furnished state, the boolean flags and the amenities (\<open>corresponde\<close>).
\<close>

theorem C1_count_and_predicates:
  "total_imoveis (lista_imoveis GET objects) \<le> length (filter (\<lambda>i. status i = ATIVO) objects)
   \<and> (\<forall>i \<in> set (object_list (page_obj (lista_imoveis GET objects))). corresponde GET i)"
proof
  have "{i \<in> set objects. status i = ATIVO \<and> corresponde GET i}
          \<subseteq> set (filter (\<lambda>i. status i = ATIVO) objects)"
    by auto
  then have "card {i \<in> set objects. status i = ATIVO \<and> corresponde GET i}
          \<le> card (set (filter (\<lambda>i. status i = ATIVO) objects))"
    by (rule card_mono [rotated]) simp
  also have "\<dots> \<le> length (filter (\<lambda>i. status i = ATIVO) objects)"
    by (rule card_length)
  finally show "total_imoveis (lista_imoveis GET objects)
                  \<le> length (filter (\<lambda>i. status i = ATIVO) objects)"
    by (simp add: total_imoveis_card)
next
  show "\<forall>i \<in> set (object_list (page_obj (lista_imoveis GET objects))). corresponde GET i"
    using page_subset_qualifica by blast
qed

theorem C1_witness:
  "total_imoveis (lista_imoveis busca_springfield springfield)
     \<le> length (filter (\<lambda>i. status i = ATIVO) springfield)
   \<and> springfield ! 1 \<in> set (object_list (page_obj (lista_imoveis busca_springfield springfield)))
   \<and> corresponde busca_springfield (springfield ! 1)"
proof -
  have m: "springfield ! 1
             \<in> set (object_list (page_obj (lista_imoveis busca_springfield springfield)))"
    by code_simp
  from C1_count_and_predicates [of busca_springfield springfield] m show ?thesis by blast
qed

text \<open>
  C2. For every request and page, every listing that \<open>lista_imoveis\<close> returns has status
  \<open>ATIVO\<close>; a listing with status \<open>VENDIDO\<close> is therefore never returned.
\<close>

theorem C2_only_active:
  "\<forall>i \<in> set (object_list (page_obj (lista_imoveis GET objects))). status i = ATIVO"
  using page_subset_qualifica by blast

theorem C2_witness:
  "springfield ! 2 \<in> set (object_list (page_obj (lista_imoveis sem_parametros springfield)))
   \<and> status (springfield ! 2) = ATIVO
   \<and> status (springfield ! 3) = VENDIDO
   \<and> springfield ! 3 \<notin> set (object_list (page_obj (lista_imoveis sem_parametros springfield)))"
proof -
  have m: "springfield ! 2
             \<in> set (object_list (page_obj (lista_imoveis sem_parametros springfield)))"
    by code_simp
  have s: "status (springfield ! 3) = VENDIDO" by code_simp
  from C2_only_active [of sem_parametros springfield] m s show ?thesis by auto
qed

text \<open>
  C9. The primary key identifies at most one listing of the store. Then
  \<open>detalhe_imovel\<close> signals \<open>Http404\<close> exactly when the store has no listing with that
  key and status \<open>ATIVO\<close> (so also when the listing with that key has another status);
  when there is one it returns that listing; and it fails in no other way.
\<close>

theorem C9_detalhe_not_found:
  assumes "distinct (map pk objects)"
  shows "(detalhe_imovel k objects = Inl Http404
            \<longleftrightarrow> \<not> (\<exists>i \<in> set objects. pk i = k \<and> status i = ATIVO))
       \<and> (\<forall>i \<in> set objects. pk i = k \<and> status i = ATIVO
            \<longrightarrow> (\<exists>d. detalhe_imovel k objects = Inr d \<and> d_imovel d = i))
       \<and> (\<forall>e. detalhe_imovel k objects = Inl e \<longrightarrow> e = Http404)"
proof -
  let ?ys = "filter (\<lambda>i. pk i = k \<and> status i = ATIVO) objects"
  from get_object_or_404_cases [OF assms, of k]
  consider (none) "?ys = []"
      "get_object_or_404 (\<lambda>i. pk i = k \<and> status i = ATIVO) objects = Inl Http404"
    | (one) x where "?ys = [x]"
      "get_object_or_404 (\<lambda>i. pk i = k \<and> status i = ATIVO) objects = Inr x"
    by blast
  then show ?thesis
  proof cases
    case none
    from none(1) have "\<not> (\<exists>i \<in> set objects. pk i = k \<and> status i = ATIVO)"
      by (simp add: filter_empty_conv)
    with none(2) show ?thesis by (auto simp: detalhe_imovel_def)
  next
    case one
    have mem: "\<And>i. i \<in> set objects \<and> pk i = k \<and> status i = ATIVO \<longleftrightarrow> i \<in> set ?ys"
      by auto
    have ex: "\<exists>i \<in> set objects. pk i = k \<and> status i = ATIVO"
      using mem [of x] one(1) by auto
    have only: "\<forall>i \<in> set objects. pk i = k \<and> status i = ATIVO \<longrightarrow> i = x"
      using mem one(1) by (metis empty_iff empty_set set_ConsD)
    from one(2) ex only show ?thesis by (auto simp: detalhe_imovel_def)
  qed
qed

theorem C9_witness:
  "distinct (map pk springfield)
   \<and> detalhe_imovel 4 springfield = Inl Http404
   \<and> springfield ! 3 \<in> set springfield \<and> pk (springfield ! 3) = 4
   \<and> detalhe_imovel 9 springfield = Inl Http404
   \<and> (\<exists>d. detalhe_imovel 2 springfield = Inr d \<and> d_imovel d = springfield ! 1)"
proof -
  have d: "distinct (map pk springfield)" by code_simp
  have a: "\<not> (\<exists>i \<in> set springfield. pk i = 4 \<and> status i = ATIVO)" by code_simp
  have b: "\<not> (\<exists>i \<in> set springfield. pk i = 9 \<and> status i = ATIVO)" by code_simp
  have c: "springfield ! 1 \<in> set springfield \<and> pk (springfield ! 1) = 2
           \<and> status (springfield ! 1) = ATIVO" by code_simp
  have e: "springfield ! 3 \<in> set springfield \<and> pk (springfield ! 3) = 4" by code_simp
  from C9_detalhe_not_found [OF d, of 4] a have r4: "detalhe_imovel 4 springfield = Inl Http404"
    by blast
  from C9_detalhe_not_found [OF d, of 9] b have r9: "detalhe_imovel 9 springfield = Inl Http404"
    by blast
  from C9_detalhe_not_found [OF d, of 2] c
  have r2: "\<exists>d. detalhe_imovel 2 springfield = Inr d \<and> d_imovel d = springfield ! 1"
    by blast
  from d r4 r9 r2 e show ?thesis by blast
qed

text \<open>
  C8. The page size is 12 and pages are numbered from 1. Every returned page has at
  most 12 listings. A request for page \<open>n\<close> that exists (\<open>n \<ge> 1\<close> and more than
  \<open>12 (n - 1)\<close> listings match) returns page \<open>n\<close>, with 12 listings or with those that
  remain after the first \<open>12 (n - 1)\<close>; so when exactly 13 listings match, page 2 has
  exactly 1. The reported total is the number of distinct listings of the store that
  are active and satisfy the facet predicates: it is taken after deduplication and
  does not depend on the page.
\<close>

theorem C8_pagination:
  "length (object_list (page_obj (lista_imoveis GET objects))) \<le> 12
   \<and> (GET_get GET ''page'' = Some s \<and> py_int s = Some n \<and> 1 \<le> n
        \<and> (nat n - 1) * 12 < total_imoveis (lista_imoveis GET objects)
      \<longrightarrow> number (page_obj (lista_imoveis GET objects)) = nat n
          \<and> length (object_list (page_obj (lista_imoveis GET objects)))
              = min 12 (total_imoveis (lista_imoveis GET objects) - (nat n - 1) * 12))
   \<and> (GET_get GET ''page'' = Some s \<and> py_int s = Some 2
        \<and> total_imoveis (lista_imoveis GET objects) = 13
      \<longrightarrow> length (object_list (page_obj (lista_imoveis GET objects))) = 1)
   \<and> total_imoveis (lista_imoveis GET objects)
        = card {i \<in> set objects. status i = ATIVO \<and> corresponde GET i}"
proof (intro conjI impI)
  show "length (object_list (page_obj (lista_imoveis GET objects))) \<le> 12"
    by (simp add: page_obj_lista length_object_list_get_page)
next
  assume a: "GET_get GET ''page'' = Some s \<and> py_int s = Some n \<and> 1 \<le> n
        \<and> (nat n - 1) * 12 < total_imoveis (lista_imoveis GET objects)"
  then have g: "length (object_list (get_page
        (fst (escolher_ordenacao (GET_get_default GET ''ordenacao'' ''relevancia'')))
        (imoveis_filtrados GET objects) 12 (Some s)))
      = min 12 (qs_distinct_count (imoveis_filtrados GET objects) - (nat n - 1) * 12)
      \<and> number (get_page
        (fst (escolher_ordenacao (GET_get_default GET ''ordenacao'' ''relevancia'')))
        (imoveis_filtrados GET objects) 12 (Some s)) = nat n"
    by (intro length_get_page) (simp_all add: total_imoveis_lista)
  from a g show "number (page_obj (lista_imoveis GET objects)) = nat n"
    by (simp add: page_obj_lista)
  from a g show "length (object_list (page_obj (lista_imoveis GET objects)))
              = min 12 (total_imoveis (lista_imoveis GET objects) - (nat n - 1) * 12)"
    by (simp add: page_obj_lista total_imoveis_lista)
next
  assume a: "GET_get GET ''page'' = Some s \<and> py_int s = Some 2
        \<and> total_imoveis (lista_imoveis GET objects) = 13"
  then have "length (object_list (get_page
        (fst (escolher_ordenacao (GET_get_default GET ''ordenacao'' ''relevancia'')))
        (imoveis_filtrados GET objects) 12 (Some s)))
      = min 12 (qs_distinct_count (imoveis_filtrados GET objects) - (nat 2 - 1) * 12)
      \<and> number (get_page
        (fst (escolher_ordenacao (GET_get_default GET ''ordenacao'' ''relevancia'')))
        (imoveis_filtrados GET objects) 12 (Some s)) = nat 2"
    by (intro length_get_page) (simp_all add: total_imoveis_lista)
  with a show "length (object_list (page_obj (lista_imoveis GET objects))) = 1"
    by (simp add: page_obj_lista total_imoveis_lista)
next
  show "total_imoveis (lista_imoveis GET objects)
        = card {i \<in> set objects. status i = ATIVO \<and> corresponde GET i}"
    by (rule total_imoveis_card)
qed

lemma treze_total: "total_imoveis (lista_imoveis pagina_2 treze) = 13"
  by code_simp

theorem C8_witness:
  "GET_get pagina_2 ''page'' = Some ''2'' \<and> py_int ''2'' = Some 2
   \<and> total_imoveis (lista_imoveis pagina_2 treze) = 13
   \<and> length (object_list (page_obj (lista_imoveis pagina_2 treze))) = 1
   \<and> number (page_obj (lista_imoveis pagina_2 treze)) = 2"
proof -
  have a: "GET_get pagina_2 ''page'' = Some ''2''" by code_simp
  have b: "py_int ''2'' = Some 2" by code_simp
  have c: "total_imoveis (lista_imoveis pagina_2 treze) = 13" by code_simp
  from C8_pagination [of pagina_2 treze "''2''" 2] a b c show ?thesis by simp
qed

text \<open>
  C6. When the value of \<open>ordenacao\<close> (or its default, when the parameter is absent) is
  none of \<open>preco_menor\<close>, \<open>preco_maior\<close>, \<open>mais_recentes\<close> and \<open>maior_area\<close>, the whole
  context is the one of the same request with \<open>ordenacao=relevancia\<close>; the echoed
  \<open>ordenacao\<close> is \<open>relevancia\<close>; and the page is ordered by creation time descending,
  ties by update time descending.
\<close>

theorem C6_unknown_sort_is_relevance:
  assumes "GET_get_default GET ''ordenacao'' ''relevancia''
             \<notin> {''preco_menor'', ''preco_maior'', ''mais_recentes'', ''maior_area''}"
  shows "lista_imoveis GET objects = lista_imoveis (GET(''ordenacao'' := [''relevancia''])) objects
       \<and> f_ordenacao (filtros_aplicados (lista_imoveis GET objects)) = ''relevancia''
       \<and> sorted_wrt (\<lambda>a b. criado_em a > criado_em b
                        \<or> (criado_em a = criado_em b \<and> atualizado_em a \<ge> atualizado_em b))
           (object_list (page_obj (lista_imoveis GET objects)))"
proof (intro conjI)
  have e: "escolher_ordenacao (GET_get_default GET ''ordenacao'' ''relevancia'')
             = (Desc_criado_em_atualizado_em, ''relevancia'')"
    using assms by (rule escolher_ordenacao_relevancia)
  have e': "escolher_ordenacao ''relevancia'' = (Desc_criado_em_atualizado_em, ''relevancia'')"
    by (simp add: escolher_ordenacao_def)
  show "lista_imoveis GET objects = lista_imoveis (GET(''ordenacao'' := [''relevancia''])) objects"
    by (simp add: lista_imoveis_def Let_def e e' imoveis_filtrados_ordenacao
          GET_get_upd GET_get_default_upd GET_getlist_upd)
  show "f_ordenacao (filtros_aplicados (lista_imoveis GET objects)) = ''relevancia''"
    by (simp add: f_ordenacao_lista e)
  show "sorted_wrt (\<lambda>a b. criado_em a > criado_em b
                        \<or> (criado_em a = criado_em b \<and> atualizado_em a \<ge> atualizado_em b))
           (object_list (page_obj (lista_imoveis GET objects)))"
    by (simp only: page_obj_lista e fst_conv) (rule sorted_wrt_relevancia)
qed

theorem C6_witness:
  "GET_get ordenacao_invalida ''ordenacao'' = Some ''bogus''
   \<and> lista_imoveis ordenacao_invalida springfield
       = lista_imoveis (ordenacao_invalida(''ordenacao'' := [''relevancia''])) springfield
   \<and> f_ordenacao (filtros_aplicados (lista_imoveis ordenacao_invalida springfield))
       = ''relevancia''
   \<and> map pk (object_list (page_obj (lista_imoveis ordenacao_invalida springfield))) = [3, 2, 1]"
proof -
  have a: "GET_get_default ordenacao_invalida ''ordenacao'' ''relevancia''
             \<notin> {''preco_menor'', ''preco_maior'', ''mais_recentes'', ''maior_area''}"
    by code_simp
  have b: "GET_get ordenacao_invalida ''ordenacao'' = Some ''bogus''" by code_simp
  have c: "map pk (object_list (page_obj (lista_imoveis ordenacao_invalida springfield)))
             = [3, 2, 1]" by code_simp
  from C6_unknown_sort_is_relevance [OF a, of springfield] b c show ?thesis by blast
qed

text \<open>
  C7. A numeric parameter whose value does not parse is ignored and raises no error
  (the model has no error result for \<open>lista_imoveis\<close>: the \<open>ValueError\<close> is caught).
  For \<open>quartos\<close>, \<open>banheiros\<close> and \<open>vagas\<close> (parsed by \<open>int\<close>), for \<open>area_min\<close>,
  \<open>preco_min\<close> and \<open>preco_max\<close> (parsed by \<open>float\<close>), and for any one identifier in
  the \<open>infraestrutura\<close> list (parsed by \<open>int\<close>), the search result, that is the page
  and the total count, equals that of the same request with the value omitted. In
  particular \<open>quartos=abc\<close> gives the result of the request without \<open>quartos\<close>.
\<close>

theorem C7_unparsed_numeric_ignored:
  "(k \<in> {''quartos'', ''banheiros'', ''vagas''} \<and> GET_get GET k = Some s \<and> py_int s = None
      \<longrightarrow> resultado (lista_imoveis GET objects) = resultado (lista_imoveis (GET(k := [])) objects))
   \<and> (k \<in> {''area_min'', ''preco_min'', ''preco_max''} \<and> GET_get GET k = Some s
        \<and> py_float s = None
      \<longrightarrow> resultado (lista_imoveis GET objects) = resultado (lista_imoveis (GET(k := [])) objects))
   \<and> (GET_getlist GET ''infraestrutura'' = xs @ s # ys \<and> py_int s = None
      \<longrightarrow> resultado (lista_imoveis GET objects)
            = resultado (lista_imoveis (GET(''infraestrutura'' := xs @ ys)) objects))
   \<and> resultado (lista_imoveis (GET(''quartos'' := [''abc''])) objects)
        = resultado (lista_imoveis (GET(''quartos'' := [])) objects)"
proof (intro conjI impI)
  assume a: "k \<in> {''quartos'', ''banheiros'', ''vagas''} \<and> GET_get GET k = Some s
               \<and> py_int s = None"
  then have "imoveis_filtrados (GET(k := [])) objects = imoveis_filtrados GET objects"
    using drop_int_param [of k GET s objects] by blast
  moreover from a have "k \<noteq> ''ordenacao''" "k \<noteq> ''page''" by auto
  ultimately show "resultado (lista_imoveis GET objects)
                     = resultado (lista_imoveis (GET(k := [])) objects)"
    by (intro resultado_cong [symmetric]) simp_all
next
  assume a: "k \<in> {''area_min'', ''preco_min'', ''preco_max''} \<and> GET_get GET k = Some s
               \<and> py_float s = None"
  then have "imoveis_filtrados (GET(k := [])) objects = imoveis_filtrados GET objects"
    using drop_float_param [of k GET s objects] by blast
  moreover from a have "k \<noteq> ''ordenacao''" "k \<noteq> ''page''" by auto
  ultimately show "resultado (lista_imoveis GET objects)
                     = resultado (lista_imoveis (GET(k := [])) objects)"
    by (intro resultado_cong [symmetric]) simp_all
next
  assume a: "GET_getlist GET ''infraestrutura'' = xs @ s # ys \<and> py_int s = None"
  then have "imoveis_filtrados (GET(''infraestrutura'' := xs @ ys)) objects
               = imoveis_filtrados GET objects"
    using drop_infra_id [of GET xs s ys objects] by blast
  then show "resultado (lista_imoveis GET objects)
               = resultado (lista_imoveis (GET(''infraestrutura'' := xs @ ys)) objects)"
    by (intro resultado_cong [symmetric]) simp_all
next
  have "imoveis_filtrados ((GET(''quartos'' := [''abc'']))(''quartos'' := [])) objects
          = imoveis_filtrados (GET(''quartos'' := [''abc''])) objects"
    by (intro drop_int_param [where s = "''abc''"]) (simp_all add: GET_get_upd py_int_abc)
  then have "imoveis_filtrados (GET(''quartos'' := [])) objects
          = imoveis_filtrados (GET(''quartos'' := [''abc''])) objects"
    by simp
  then show "resultado (lista_imoveis (GET(''quartos'' := [''abc''])) objects)
        = resultado (lista_imoveis (GET(''quartos'' := [])) objects)"
    by (intro resultado_cong [symmetric]) simp_all
qed

theorem C7_witness:
  "GET_get quartos_abc ''quartos'' = Some ''abc'' \<and> py_int ''abc'' = None
   \<and> resultado (lista_imoveis quartos_abc springfield)
       = resultado (lista_imoveis (quartos_abc(''quartos'' := [])) springfield)
   \<and> map pk (object_list (page_obj (lista_imoveis quartos_abc springfield))) = [3, 2]
   \<and> total_imoveis (lista_imoveis quartos_abc springfield) = 2"
proof -
  have a: "GET_get quartos_abc ''quartos'' = Some ''abc''" by code_simp
  have b: "py_int ''abc'' = None" by code_simp
  have c: "map pk (object_list (page_obj (lista_imoveis quartos_abc springfield))) = [3, 2]
           \<and> total_imoveis (lista_imoveis quartos_abc springfield) = 2" by code_simp
  from C7_unparsed_numeric_ignored [of "''quartos''" quartos_abc "''abc''" springfield] a b c
  show ?thesis by blast
qed

text \<open>
  C10. The parameters \<open>pet_friendly\<close>, \<open>financiamento\<close> and \<open>com_fotos\<close> filter only
  when their raw value is exactly the string \<open>true\<close>. With any other value (such as
  \<open>True\<close>, \<open>1\<close>, \<open>yes\<close>, \<open>false\<close> or the empty string) or without the parameter,
  the search result, that is the page and the total count, equals that of the same
  request with the parameter omitted. With the value \<open>true\<close> every returned listing
  has the flag (is pet friendly, accepts financing, has a photo).
\<close>

theorem C10_boolean_flags_exact_true:
  "(k \<in> {''pet_friendly'', ''financiamento'', ''com_fotos''} \<and> GET_get GET k \<noteq> Some ''true''
      \<longrightarrow> resultado (lista_imoveis GET objects) = resultado (lista_imoveis (GET(k := [])) objects))
   \<and> (GET_get GET ''pet_friendly'' = Some ''true''
      \<longrightarrow> (\<forall>i \<in> set (object_list (page_obj (lista_imoveis GET objects))). pet_friendly i))
   \<and> (GET_get GET ''financiamento'' = Some ''true''
      \<longrightarrow> (\<forall>i \<in> set (object_list (page_obj (lista_imoveis GET objects))).
             aceita_financiamento i))
   \<and> (GET_get GET ''com_fotos'' = Some ''true''
      \<longrightarrow> (\<forall>i \<in> set (object_list (page_obj (lista_imoveis GET objects))). fotos i \<noteq> []))"
proof (intro conjI impI ballI)
  assume a: "k \<in> {''pet_friendly'', ''financiamento'', ''com_fotos''}
               \<and> GET_get GET k \<noteq> Some ''true''"
  then have "imoveis_filtrados (GET(k := [])) objects = imoveis_filtrados GET objects"
    using drop_flag_param [of k GET objects] by blast
  moreover from a have "k \<noteq> ''ordenacao''" "k \<noteq> ''page''" by auto
  ultimately show "resultado (lista_imoveis GET objects)
                     = resultado (lista_imoveis (GET(k := [])) objects)"
    by (intro resultado_cong [symmetric]) simp_all
next
  fix i
  assume "GET_get GET ''pet_friendly'' = Some ''true''"
    and "i \<in> set (object_list (page_obj (lista_imoveis GET objects)))"
  then show "pet_friendly i"
    using page_subset_qualifica [of i GET objects]
    by (simp add: corresponde_def cond_pet_friendly_def cond_flag_def)
next
  fix i
  assume "GET_get GET ''financiamento'' = Some ''true''"
    and "i \<in> set (object_list (page_obj (lista_imoveis GET objects)))"
  then show "aceita_financiamento i"
    using page_subset_qualifica [of i GET objects]
    by (simp add: corresponde_def cond_financiamento_def cond_flag_def)
next
  fix i
  assume "GET_get GET ''com_fotos'' = Some ''true''"
    and "i \<in> set (object_list (page_obj (lista_imoveis GET objects)))"
  then show "fotos i \<noteq> []"
    using page_subset_qualifica [of i GET objects]
    by (simp add: corresponde_def cond_com_fotos_def cond_flag_def)
qed

theorem C10_witness:
  "GET_get pet_True ''pet_friendly'' = Some ''True''
   \<and> resultado (lista_imoveis pet_True com_e_sem_pet)
       = resultado (lista_imoveis (pet_True(''pet_friendly'' := [])) com_e_sem_pet)
   \<and> map pk (object_list (page_obj (lista_imoveis pet_True com_e_sem_pet))) = [1, 2]
   \<and> GET_get pet_true ''pet_friendly'' = Some ''true''
   \<and> com_e_sem_pet ! 0 \<in> set (object_list (page_obj (lista_imoveis pet_true com_e_sem_pet)))
   \<and> pet_friendly (com_e_sem_pet ! 0)"
proof -
  have a: "GET_get pet_True ''pet_friendly'' = Some ''True''" by code_simp
  have b: "map pk (object_list (page_obj (lista_imoveis pet_True com_e_sem_pet))) = [1, 2]"
    by code_simp
  have c: "GET_get pet_true ''pet_friendly'' = Some ''true''" by code_simp
  have d: "com_e_sem_pet ! 0
             \<in> set (object_list (page_obj (lista_imoveis pet_true com_e_sem_pet)))"
    by code_simp
  have e: "''pet_friendly'' \<in> {''pet_friendly'', ''financiamento'', ''com_fotos''}
           \<and> GET_get pet_True ''pet_friendly'' \<noteq> Some ''true''"
    using a by simp
  from C10_boolean_flags_exact_true [of "''pet_friendly''" pet_True com_e_sem_pet] e
  have r: "resultado (lista_imoveis pet_True com_e_sem_pet)
       = resultado (lista_imoveis (pet_True(''pet_friendly'' := [])) com_e_sem_pet)"
    by blast
  from C10_boolean_flags_exact_true [of "''pet_friendly''" pet_true com_e_sem_pet] c d
  have p: "pet_friendly (com_e_sem_pet ! 0)" by blast
  from a b c d r p show ?thesis by blast
qed

text \<open>
  C5. The amenity facet is conjunctive: a listing qualifies for a request exactly when
  it qualifies for the request without \<open>infraestrutura\<close> and has every amenity whose
  identifier is in the list (identifiers that do not parse are skipped). So a listing
  with the amenities 1 and 2 does not match a request for 1, 2 and 3, and matches a
  request for 1 and a request for 1 and 2.
\<close>

theorem C5_amenities_conjunctive:
  "qualifica GET objects i \<longleftrightarrow>
     qualifica (GET(''infraestrutura'' := [])) objects i
     \<and> (\<forall>s \<in> set (GET_getlist GET ''infraestrutura'').
          \<forall>k. py_int s = Some k \<longrightarrow> k \<in> set (infraestrutura i))"
  unfolding qualifica_iff cond_infraestrutura_iff [symmetric]
  using corresponde_infra [of GET i] by blast

theorem C5_witness:
  "infraestrutura casa_ab = [1, 2]
   \<and> py_int ''1'' = Some 1 \<and> py_int ''2'' = Some 2 \<and> py_int ''3'' = Some 3
   \<and> \<not> qualifica (pede_infra [''1'', ''2'', ''3'']) [casa_ab] casa_ab
   \<and> qualifica (pede_infra [''1'']) [casa_ab] casa_ab
   \<and> qualifica (pede_infra [''1'', ''2'']) [casa_ab] casa_ab"
proof -
  have i: "infraestrutura casa_ab = [1, 2]" by code_simp
  have p: "py_int ''1'' = Some 1" "py_int ''2'' = Some 2" "py_int ''3'' = Some 3"
    by code_simp+
  have g: "\<And>ids. GET_getlist (pede_infra ids) ''infraestrutura'' = ids"
    by (simp add: pede_infra_def GET_getlist_def)
  have u: "\<And>ids. (pede_infra ids)(''infraestrutura'' := []) = sem_parametros"
    by (auto simp: pede_infra_def sem_parametros_def fun_eq_iff)
  have q: "qualifica sem_parametros [casa_ab] casa_ab" by code_simp
  have abc: "\<not> qualifica (pede_infra [''1'', ''2'', ''3'']) [casa_ab] casa_ab"
    using C5_amenities_conjunctive [of "pede_infra [''1'', ''2'', ''3'']" "[casa_ab]" casa_ab]
    by (simp add: g i p)
  have a: "qualifica (pede_infra [''1'']) [casa_ab] casa_ab"
    using C5_amenities_conjunctive [of "pede_infra [''1'']" "[casa_ab]" casa_ab] q
    by (simp add: g u i p)
  have ab: "qualifica (pede_infra [''1'', ''2'']) [casa_ab] casa_ab"
    using C5_amenities_conjunctive [of "pede_infra [''1'', ''2'']" "[casa_ab]" casa_ab] q
    by (simp add: g u i p)
  from i p abc a ab show ?thesis by blast
qed

text \<open>
  C4, as amended. Each price bound is a filter step of its own on the prices of the
  listing. A listing qualifies for a request exactly when it qualifies for the request
  without \<open>preco_min\<close> and \<open>preco_max\<close>, has some \<open>PrecoPorFinalidade\<close> whose value is at
  least \<open>preco_min\<close> (when that is supplied, non-empty and parses), and has some
  \<open>PrecoPorFinalidade\<close>, not necessarily the same one, whose value is at most
  \<open>preco_max\<close> (likewise). Both bounds are inclusive. The counterexample is a listing
  priced 100 and 1000 that qualifies for the range from 200 to 500, although neither
  of its prices lies in that range.
\<close>

theorem C4_price_bounds_independent:
  "qualifica GET objects i \<longleftrightarrow>
     qualifica (GET(''preco_min'' := [], ''preco_max'' := [])) objects i
     \<and> (\<forall>s x. GET_get GET ''preco_min'' = Some s \<and> s \<noteq> [] \<and> py_float s = Some x
          \<longrightarrow> (\<exists>p \<in> set (precos i). gte_float (valor p) x))
     \<and> (\<forall>s x. GET_get GET ''preco_max'' = Some s \<and> s \<noteq> [] \<and> py_float s = Some x
          \<longrightarrow> (\<exists>p \<in> set (precos i). lte_float (valor p) x))"
  unfolding qualifica_iff
  using corresponde_precos [of GET i]
  by (simp add: cond_preco_min_def cond_preco_max_def cond_parsed_iff)

theorem C4_witness:
  "GET_get faixa_200_500 ''preco_min'' = Some ''200'' \<and> py_float ''200'' = Some (Finite 200)
   \<and> GET_get faixa_200_500 ''preco_max'' = Some ''500'' \<and> py_float ''500'' = Some (Finite 500)
   \<and> qualifica faixa_200_500 [casa_100_1000] casa_100_1000
   \<and> (\<exists>p \<in> set (precos casa_100_1000). gte_float (valor p) (Finite 200))
   \<and> (\<exists>p \<in> set (precos casa_100_1000). lte_float (valor p) (Finite 500))"
proof -
  have a: "GET_get faixa_200_500 ''preco_min'' = Some ''200''"
          "GET_get faixa_200_500 ''preco_max'' = Some ''500''" by code_simp+
  have b: "py_float ''200'' = Some (Finite 200)" "py_float ''500'' = Some (Finite 500)"
    by code_simp+
  have q: "qualifica faixa_200_500 [casa_100_1000] casa_100_1000" by code_simp
  have n: "''200'' \<noteq> []" "''500'' \<noteq> []" by simp_all
  from C4_price_bounds_independent [of faixa_200_500 "[casa_100_1000]" casa_100_1000] q
  have "(\<forall>s x. GET_get faixa_200_500 ''preco_min'' = Some s \<and> s \<noteq> [] \<and> py_float s = Some x
          \<longrightarrow> (\<exists>p \<in> set (precos casa_100_1000). gte_float (valor p) x))"
    and "(\<forall>s x. GET_get faixa_200_500 ''preco_max'' = Some s \<and> s \<noteq> [] \<and> py_float s = Some x
          \<longrightarrow> (\<exists>p \<in> set (precos casa_100_1000). lte_float (valor p) x))"
    by blast+
  with a b n have "\<exists>p \<in> set (precos casa_100_1000). gte_float (valor p) (Finite 200)"
    and "\<exists>p \<in> set (precos casa_100_1000). lte_float (valor p) (Finite 500)"
    by blast+
  with a b q show ?thesis by blast
qed

theorem C4_counterexample:
  "py_float ''200'' = Some (Finite 200) \<and> py_float ''500'' = Some (Finite 500)
   \<and> map valor (precos casa_100_1000) = [100, 1000]
   \<and> qualifica faixa_200_500 [casa_100_1000] casa_100_1000
   \<and> object_list (page_obj (lista_imoveis faixa_200_500 [casa_100_1000])) = [casa_100_1000]
   \<and> total_imoveis (lista_imoveis faixa_200_500 [casa_100_1000]) = 1"
  by code_simp

text \<open>
  C3. Each matching listing should appear once, whatever the order: the view calls
  \<open>distinct()\<close> to remove the duplicates that the joins with \<open>precos\<close> produce. For the
  orders \<open>relevancia\<close>, \<open>mais_recentes\<close> and \<open>maior_area\<close> the page has no repetition
  (\<open>page_distinct_unless_price\<close>). For \<open>preco_menor\<close> and \<open>preco_maior\<close> the ordering
  column \<open>precos.valor\<close> is among the columns that \<open>SELECT DISTINCT\<close> compares, so a
  listing is repeated once per distinct price of the joined alias, while \<open>count()\<close>
  counts each listing once. Here both listings qualify for the price range and the
  total is 2, but the page holds the listing with three prices twice and leaves the
  other listing out.
\<close>

theorem C3_duplicate_under_price_order:
  "qualifica faixa_por_preco [casa_tres_precos, casa_um_preco] casa_tres_precos
   \<and> qualifica faixa_por_preco [casa_tres_precos, casa_um_preco] casa_um_preco
   \<and> total_imoveis (lista_imoveis faixa_por_preco [casa_tres_precos, casa_um_preco]) = 2
   \<and> object_list (page_obj (lista_imoveis faixa_por_preco [casa_tres_precos, casa_um_preco]))
       = [casa_tres_precos, casa_tres_precos]"
  by code_simp

end
